theory Spec2Isabelle
  imports Complex_Main
begin

section \<open>The financial engine of \<^verbatim>\<open>app.py\<close>\<close>

text \<open>
  The engine is the function \<^verbatim>\<open>perform_calculations\<close> together with the two module-level
  tables \<^verbatim>\<open>SECTOR_RATIOS\<close> and \<^verbatim>\<open>TAX_ZONES\<close>. It is modelled twice.

  The first model reads the numbers as exact reals, so \<^verbatim>\<open>0.40\<close> is the fraction 2/5 and
  every operation is the mathematical one: its theorems say what the formulas of the code
  give in exact arithmetic. The investment is \<^verbatim>\<open>None\<close> or a number, hence a \<open>real option\<close>;
  the other four numeric arguments (the employee count among them, which the source never
  rounds) are numbers.

  The second model, further down, computes with Python's own numbers, unbounded ints and
  IEEE doubles: its theorems say what the code does where rounding, overflow or the conversion
  of an int decides.

  In both, a dictionary lookup with a missing key and a division by zero raise; an exception
  is a value of \<open>py_error\<close>.
\<close>

subsection \<open>Rate tables\<close>

datatype py_error = KeyError | ZeroDivisionError | OverflowError

record sector =
  margin :: real
  stock_need :: real
  label :: string

record tax_zone =
  zone_label :: string
  salary_tax :: real
  corp_tax :: real

definition SECTOR_RATIOS :: "string \<rightharpoonup> sector" where
  "SECTOR_RATIOS = map_of
     [(''retail'', \<lparr>margin = 0.40, stock_need = 0.15, label = ''Retail (Store)''\<rparr>),
      (''services'', \<lparr>margin = 0.95, stock_need = 0.0, label = ''Services (Consulting)''\<rparr>),
      (''industry'', \<lparr>margin = 0.50, stock_need = 0.20, label = ''Industry (Manufacturing)''\<rparr>)]"

definition TAX_ZONES :: "string \<rightharpoonup> tax_zone" where
  "TAX_ZONES = map_of
     [(''eu'', \<lparr>zone_label = ''Europe (France/Germany/Italy)'', salary_tax = 0.85, corp_tax = 0.25\<rparr>),
      (''us'', \<lparr>zone_label = ''North America (USA/Canada)'', salary_tax = 0.25, corp_tax = 0.21\<rparr>),
      (''asia'', \<lparr>zone_label = ''Asia (SG/HK/Japan)'', salary_tax = 0.20, corp_tax = 0.17\<rparr>),
      (''latam'', \<lparr>zone_label = ''South America (Brazil)'', salary_tax = 0.60, corp_tax = 0.34\<rparr>),
      (''afr'', \<lparr>zone_label = ''Africa (Nigeria/SA)'', salary_tax = 0.15, corp_tax = 0.30\<rparr>)]"

subsection \<open>Costs and break-even (lines 138 to 153)\<close>

text \<open>Python's \<^verbatim>\<open>/\<close> raises \<^verbatim>\<open>ZeroDivisionError\<close> on a zero divisor.\<close>

definition py_truediv :: "real \<Rightarrow> real \<Rightarrow> py_error + real" where
  "py_truediv x y = (if y = 0 then Inl ZeroDivisionError else Inr (x / y))"

text \<open>The local variables of \<^verbatim>\<open>perform_calculations\<close> that are set once, before the
  loops, under the names of the source. \<open>investment\<close> is the value after the \<^verbatim>\<open>None\<close>
  check of line 138.\<close>

record costs =
  investment :: real
  margin_ratio :: real
  salary_tax_rate :: real
  corp_tax_rate :: real
  salary_multiplier :: real
  annual_amortization :: real
  total_salary_cost_monthly :: real
  rent_monthly :: real
  total_yearly_fixed_costs :: real
  yearly_breakeven_turnover :: real

text \<open>Lines 138 to 153 over given tables: the two lookups in the order of the source
  (industry first), the costs, then the division.\<close>

definition compute_costs_on ::
  "(string \<rightharpoonup> sector) \<Rightarrow> (string \<rightharpoonup> tax_zone) \<Rightarrow> string \<Rightarrow> string \<Rightarrow> real option \<Rightarrow>
   real \<Rightarrow> real \<Rightarrow> real \<Rightarrow> real \<Rightarrow> py_error + costs" where
  "compute_costs_on sectors zones region industry inv0 owner_salary rent nb_emp emp_salary =
     (let inv = (case inv0 of None \<Rightarrow> 0 | Some v \<Rightarrow> v) in
      case sectors industry of None \<Rightarrow> Inl KeyError | Some s \<Rightarrow>
     (case zones region of None \<Rightarrow> Inl KeyError | Some z \<Rightarrow>
        (let mr = margin s;
             st = salary_tax z;
             ct = corp_tax z;
             sm = 1 + st;
             am = inv / 5;
             sal = (owner_salary * sm) + (nb_emp * emp_salary * sm);
             rm = rent * 1.2;
             fixed = (sal + rm) * 12 + am
         in case py_truediv fixed mr of Inl e \<Rightarrow> Inl e | Inr be \<Rightarrow>
              Inr \<lparr>investment = inv, margin_ratio = mr, salary_tax_rate = st, corp_tax_rate = ct,
                   salary_multiplier = sm, annual_amortization = am,
                   total_salary_cost_monthly = sal, rent_monthly = rm,
                   total_yearly_fixed_costs = fixed, yearly_breakeven_turnover = be\<rparr>)))"

definition compute_costs ::
  "string \<Rightarrow> string \<Rightarrow> real option \<Rightarrow> real \<Rightarrow> real \<Rightarrow> real \<Rightarrow> real \<Rightarrow> py_error + costs" where
  "compute_costs = compute_costs_on SECTOR_RATIOS TAX_ZONES"

subsection \<open>Part A: the scenario loop (lines 156 to 182)\<close>

definition scenarios :: "(string \<times> real) list" where
  "scenarios = [(''Stagnation'', 1.0), (''Growth (+5%)'', 1.05), (''Recession (-5%)'', 0.95)]"

definition years :: "string list" where
  "years = [''Year 1'', ''Year 2'', ''Year 3'']"

text \<open>The values one iteration of the inner loop computes, kept per year so that
  properties of the turnover, EBIT and tax of a scenario year can be stated. The source
  keeps \<open>net_profit\<close> and \<open>cumulative_cash\<close> of each year (\<^verbatim>\<open>p_list\<close>, \<^verbatim>\<open>cash_list\<close>).\<close>

record scen_year =
  sy_turnover :: real
  sy_gross_margin :: real
  sy_ebit :: real
  sy_tax :: real
  sy_net_profit :: real
  sy_cash_flow :: real
  sy_cumulative_cash :: real

text \<open>The body of \<^verbatim>\<open>for i in range(3)\<close> (lines 168 to 177) at index \<open>i\<close>, from the
  current turnover \<open>t\<close> and the cumulative cash \<open>cum\<close> of the iteration before.\<close>

definition scenario_body :: "costs \<Rightarrow> real \<Rightarrow> nat \<Rightarrow> real \<Rightarrow> real \<Rightarrow> scen_year" where
  "scenario_body k rate i t cum =
     (let curr_turnover = (if i > 0 then t * rate else t);
          gross_margin = curr_turnover * margin_ratio k;
          ebit = gross_margin - total_yearly_fixed_costs k;
          tax = (if ebit > 0 then ebit * corp_tax_rate k else 0);
          net_profit = ebit - tax;
          cash_flow_year = net_profit + annual_amortization k;
          cumulative_cash = cum + cash_flow_year
      in \<lparr>sy_turnover = curr_turnover, sy_gross_margin = gross_margin, sy_ebit = ebit,
           sy_tax = tax, sy_net_profit = net_profit, sy_cash_flow = cash_flow_year,
           sy_cumulative_cash = cumulative_cash\<rparr>)"

text \<open>The loop over the indices \<open>is\<close>: \<^verbatim>\<open>curr_turnover\<close> and \<^verbatim>\<open>cumulative_cash\<close> are the
  two variables that an iteration hands to the next.\<close>

fun scenario_loop :: "costs \<Rightarrow> real \<Rightarrow> nat list \<Rightarrow> real \<Rightarrow> real \<Rightarrow> scen_year list" where
  "scenario_loop k rate [] t cum = []"
| "scenario_loop k rate (i # is) t cum =
     (let y = scenario_body k rate i t cum
      in y # scenario_loop k rate is (sy_turnover y) (sy_cumulative_cash y))"

text \<open>One pass of the outer loop: \<^verbatim>\<open>curr_turnover = base_turnover\<close>,
  \<^verbatim>\<open>cumulative_cash = -investment\<close>, then \<^verbatim>\<open>range(3)\<close>.\<close>

definition scenario_years :: "costs \<Rightarrow> real \<Rightarrow> scen_year list" where
  "scenario_years k rate =
     scenario_loop k rate [0, 1, 2] (yearly_breakeven_turnover k) (- investment k)"

record graph_entry =
  name :: string
  profit :: "real list"
  cash :: "real list"

definition graph_entry_of :: "costs \<Rightarrow> string \<times> real \<Rightarrow> graph_entry" where
  "graph_entry_of k sc =
     (let ys = scenario_years k (snd sc)
      in \<lparr>name = fst sc, profit = map sy_net_profit ys, cash = map sy_cumulative_cash ys\<rparr>)"

subsection \<open>Part B: the detailed table (lines 186 to 221)\<close>

record table_row =
  Year :: string
  Turnover :: real
  COGS :: real
  Gross_Margin :: real
  Personnel :: real
  Rent_Charges :: real
  EBITDA :: real
  Amortization :: real
  EBIT :: real
  Tax :: real
  Net_Profit :: real
  Cash_Position :: real
  Net_Assets :: real

text \<open>The body of the second loop (lines 192 to 219) at index \<open>i\<close>; \<open>t\<close> is
  \<^verbatim>\<open>curr_turnover\<close>, which this loop never assigns, \<open>cum\<close> and \<open>nfa\<close> are the cumulative
  cash and the net fixed assets of the iteration before.\<close>

definition table_body :: "costs \<Rightarrow> real \<Rightarrow> nat \<Rightarrow> real \<Rightarrow> real \<Rightarrow> table_row" where
  "table_body k t i cum nfa =
     (let cogs = t * (1 - margin_ratio k);
          gross_margin = t * margin_ratio k;
          personnel = total_salary_cost_monthly k * 12;
          ext_charges = rent_monthly k * 12;
          ebitda = gross_margin - personnel - ext_charges;
          ebit = ebitda - annual_amortization k;
          tax = (if ebit > 0 then ebit * corp_tax_rate k else 0);
          net_profit = ebit - tax;
          cumulative_cash = cum + (net_profit + annual_amortization k);
          nfa1 = nfa - annual_amortization k;
          net_fixed_assets = (if nfa1 < 0 then 0 else nfa1)
      in \<lparr>Year = years ! i, Turnover = t, COGS = - cogs, Gross_Margin = gross_margin,
           Personnel = - personnel, Rent_Charges = - ext_charges, EBITDA = ebitda,
           Amortization = - annual_amortization k, EBIT = ebit, Tax = - tax,
           Net_Profit = net_profit, Cash_Position = cumulative_cash,
           Net_Assets = net_fixed_assets\<rparr>)"

fun table_loop :: "costs \<Rightarrow> real \<Rightarrow> nat list \<Rightarrow> real \<Rightarrow> real \<Rightarrow> table_row list" where
  "table_loop k t [] cum nfa = []"
| "table_loop k t (i # is) cum nfa =
     (let row = table_body k t i cum nfa
      in row # table_loop k t is (Cash_Position row) (Net_Assets row))"

definition table_rows :: "costs \<Rightarrow> table_row list" where
  "table_rows k =
     table_loop k (yearly_breakeven_turnover k) [0, 1, 2] (- investment k) (investment k)"

subsection \<open>The engine\<close>

text \<open>The returned tuple \<^verbatim>\<open>(yearly_breakeven_turnover, corp_tax_rate, graph_data, df_table)\<close>.\<close>

record result =
  res_breakeven_turnover :: real
  res_corp_tax_rate :: real
  graph_data :: "graph_entry list"
  df_table :: "table_row list"

definition result_of :: "costs \<Rightarrow> result" where
  "result_of k =
     \<lparr>res_breakeven_turnover = yearly_breakeven_turnover k,
      res_corp_tax_rate = corp_tax_rate k,
      graph_data = map (graph_entry_of k) scenarios,
      df_table = table_rows k\<rparr>"

definition perform_calculations_on ::
  "(string \<rightharpoonup> sector) \<Rightarrow> (string \<rightharpoonup> tax_zone) \<Rightarrow> string \<Rightarrow> string \<Rightarrow> real option \<Rightarrow>
   real \<Rightarrow> real \<Rightarrow> real \<Rightarrow> real \<Rightarrow> py_error + result" where
  "perform_calculations_on sectors zones region industry inv0 owner_salary rent nb_emp emp_salary =
     (case compute_costs_on sectors zones region industry inv0 owner_salary rent nb_emp emp_salary of
        Inl e \<Rightarrow> Inl e
      | Inr k \<Rightarrow> Inr (result_of k))"

definition perform_calculations ::
  "string \<Rightarrow> string \<Rightarrow> real option \<Rightarrow> real \<Rightarrow> real \<Rightarrow> real \<Rightarrow> real \<Rightarrow> py_error + result" where
  "perform_calculations = perform_calculations_on SECTOR_RATIOS TAX_ZONES"

section \<open>The engine in Python's numbers\<close>

text \<open>
  The same function once more, now with the numbers Python computes with: an argument is
  an \<^verbatim>\<open>int\<close> (unbounded) or a \<^verbatim>\<open>float\<close> (an IEEE 754 binary64 value), every
  operation on floats rounds to the nearest double, ties to even, and the conversion of an
  \<^verbatim>\<open>int\<close> that is too large for a double raises \<^verbatim>\<open>OverflowError\<close>. This model
  decides what the code does where rounding, overflow or the conversion matters.
\<close>

subsection \<open>Doubles\<close>

text \<open>\<open>Finite m e\<close> is the double \<open>m * 2 ^ e\<close>, kept in the form in which it is unique:
  \<open>- 1074 \<le> e\<close>, \<open>\<bar>m\<bar> < 2 ^ 53\<close>, and \<open>2 ^ 52 \<le> \<bar>m\<bar>\<close> unless \<open>e = - 1074\<close> (zero and the
  subnormal numbers). The sign of a zero is dropped: no operation of the engine tells the
  two zeros apart (a division by either raises, and nothing prints or copies a sign).\<close>

datatype double = Finite int int | PInf | NInf | NaN

text \<open>Python's \<^verbatim>\<open>int.bit_length\<close> for a positive number, 0 otherwise.\<close>

function bit_length :: "int \<Rightarrow> int" where
  "bit_length n = (if n \<le> 0 then 0 else bit_length (n div 2) + 1)"
  by pat_completeness auto
termination
  by (relation "measure nat") auto

declare bit_length.simps [simp del]

text \<open>For \<open>n \<noteq> 0\<close> and \<open>0 < d\<close>: the \<open>g\<close> with \<open>2 ^ g \<le> \<bar>n\<bar> / d < 2 ^ (g + 1)\<close>. The difference
  \<open>g\<close> of the bit lengths is that exponent or one more.\<close>

definition floor_log2_from :: "int \<Rightarrow> int \<Rightarrow> int \<Rightarrow> int" where
  "floor_log2_from g n d =
     (if (0 \<le> g \<and> d * 2 ^ nat g \<le> n) \<or> (g < 0 \<and> d \<le> n * 2 ^ nat (- g)) then g else g - 1)"

definition floor_log2 :: "int \<Rightarrow> int \<Rightarrow> int" where
  "floor_log2 n d = floor_log2_from (bit_length \<bar>n\<bar> - bit_length d) \<bar>n\<bar> d"

text \<open>The integer nearest to \<open>n / d\<close> for \<open>0 < d\<close>, a tie going to the even one: \<open>q\<close> is the
  quotient rounded down and \<open>r = n - q * d\<close> the remainder, so that \<open>n / d = q + r / d\<close> with
  \<open>0 \<le> r < d\<close>.\<close>

definition nearest_even :: "int \<Rightarrow> int \<Rightarrow> int \<Rightarrow> int" where
  "nearest_even q r d =
     (if 2 * r < d then q
      else if d < 2 * r then q + 1
      else if even q then q else q + 1)"

definition round_from :: "int \<Rightarrow> int \<Rightarrow> int \<Rightarrow> int" where
  "round_from n d q = nearest_even q (n - q * d) d"

definition round_half_even :: "int \<Rightarrow> int \<Rightarrow> int" where
  "round_half_even n d = round_from n d (n div d)"

text \<open>The double with mantissa \<open>m\<close> (\<open>\<bar>m\<bar> \<le> 2 ^ 53\<close>) and exponent \<open>t\<close>: a mantissa that
  rounding has carried to \<open>2 ^ 53\<close> moves to the next exponent, and an exponent above 971 is
  beyond the largest double, \<open>(2 ^ 53 - 1) * 2 ^ 971\<close>.\<close>

definition pack_double :: "int \<Rightarrow> int \<Rightarrow> double" where
  "pack_double m t =
     (if \<bar>m\<bar> = 2 ^ 53
      then (if 971 < t + 1 then (if 0 < m then PInf else NInf) else Finite (m div 2) (t + 1))
      else (if 971 < t then (if 0 < m then PInf else NInf) else Finite m t))"

text \<open>\<open>n / d * 2 ^ x\<close> in units of \<open>2 ^ t\<close>, rounded to the nearest integer.\<close>

definition round_at :: "int \<Rightarrow> int \<Rightarrow> int \<Rightarrow> int \<Rightarrow> double" where
  "round_at n d x t =
     pack_double
       (if t \<le> x then round_half_even (n * 2 ^ nat (x - t)) d
        else round_half_even n (d * 2 ^ nat (t - x))) t"

text \<open>The double nearest to the rational \<open>n / d * 2 ^ x\<close> (\<open>0 < d\<close>): the exponent of the last
  place is 52 below that of the leading bit, but not below \<open>- 1074\<close>.\<close>

definition round_double :: "int \<Rightarrow> int \<Rightarrow> int \<Rightarrow> double" where
  "round_double n d x =
     (if n = 0 then Finite 0 (- 1074)
      else round_at n d x (max (floor_log2 n d + x - 52) (- 1074)))"

text \<open>A decimal literal of the source, such as \<^verbatim>\<open>0.40\<close> = 40 / 100.\<close>

definition float_literal :: "int \<Rightarrow> int \<Rightarrow> double" where
  "float_literal n d = round_double n d 0"

definition dsign :: "double \<Rightarrow> int" where
  "dsign a = (case a of Finite m e \<Rightarrow> sgn m | PInf \<Rightarrow> 1 | NInf \<Rightarrow> - 1 | NaN \<Rightarrow> 0)"

definition is_zero :: "double \<Rightarrow> bool" where
  "is_zero a = (case a of Finite m e \<Rightarrow> m = 0 | _ \<Rightarrow> False)"

definition fneg :: "double \<Rightarrow> double" where
  "fneg a = (case a of Finite m e \<Rightarrow> Finite (- m) e | PInf \<Rightarrow> NInf | NInf \<Rightarrow> PInf | NaN \<Rightarrow> NaN)"

fun fadd :: "double \<Rightarrow> double \<Rightarrow> double" where
  "fadd (Finite m1 e1) (Finite m2 e2) =
     round_double (m1 * 2 ^ nat (e1 - min e1 e2) + m2 * 2 ^ nat (e2 - min e1 e2)) 1 (min e1 e2)"
| "fadd NaN b = NaN"
| "fadd a NaN = NaN"
| "fadd PInf NInf = NaN"
| "fadd NInf PInf = NaN"
| "fadd PInf b = PInf"
| "fadd NInf b = NInf"
| "fadd a PInf = PInf"
| "fadd a NInf = NInf"

definition fsub :: "double \<Rightarrow> double \<Rightarrow> double" where
  "fsub a b = fadd a (fneg b)"

fun fmul :: "double \<Rightarrow> double \<Rightarrow> double" where
  "fmul (Finite m1 e1) (Finite m2 e2) = round_double (m1 * m2) 1 (e1 + e2)"
| "fmul a b =
     (if a = NaN \<or> b = NaN \<or> dsign a * dsign b = 0 then NaN
      else if 0 < dsign a * dsign b then PInf else NInf)"

text \<open>Division by a divisor that is not zero (Python raises before it divides by zero).\<close>

fun fdiv :: "double \<Rightarrow> double \<Rightarrow> double" where
  "fdiv (Finite m1 e1) (Finite m2 e2) = round_double (m1 * sgn m2) \<bar>m2\<bar> (e1 - e2)"
| "fdiv NaN b = NaN"
| "fdiv a NaN = NaN"
| "fdiv (Finite m1 e1) b = Finite 0 (- 1074)"
| "fdiv a (Finite m2 e2) = (if 0 < dsign a * sgn m2 then PInf else NInf)"
| "fdiv a b = NaN"

subsection \<open>Python numbers\<close>

datatype pynum = PyInt int | PyFloat double

text \<open>\<^verbatim>\<open>float(n)\<close>: the nearest double, or \<^verbatim>\<open>OverflowError\<close>.\<close>

definition to_double :: "pynum \<Rightarrow> py_error + double" where
  "to_double a =
     (case a of
        PyFloat x \<Rightarrow> Inr x
      | PyInt n \<Rightarrow> (case round_double n 1 0 of
                     Finite m e \<Rightarrow> Inr (Finite m e)
                   | _ \<Rightarrow> Inl OverflowError))"

text \<open>\<^verbatim>\<open>+\<close>, \<^verbatim>\<open>-\<close> and \<^verbatim>\<open>*\<close>: exact on two ints; otherwise both operands become doubles,
  the left one first, and the operation is the one on doubles.\<close>

definition py_binop ::
  "(int \<Rightarrow> int \<Rightarrow> int) \<Rightarrow> (double \<Rightarrow> double \<Rightarrow> double) \<Rightarrow> pynum \<Rightarrow> pynum \<Rightarrow> py_error + pynum" where
  "py_binop fi ff a b =
     (case (a, b) of
        (PyInt x, PyInt y) \<Rightarrow> Inr (PyInt (fi x y))
      | _ \<Rightarrow> (case to_double a of Inl err \<Rightarrow> Inl err | Inr x \<Rightarrow>
              (case to_double b of Inl err \<Rightarrow> Inl err | Inr y \<Rightarrow> Inr (PyFloat (ff x y)))))"

definition py_add :: "pynum \<Rightarrow> pynum \<Rightarrow> py_error + pynum" where
  "py_add = py_binop (+) fadd"

definition py_sub :: "pynum \<Rightarrow> pynum \<Rightarrow> py_error + pynum" where
  "py_sub = py_binop (-) fsub"

definition py_mul :: "pynum \<Rightarrow> pynum \<Rightarrow> py_error + pynum" where
  "py_mul = py_binop (*) fmul"

text \<open>\<^verbatim>\<open>/\<close>: two ints give the double nearest to the exact quotient; a zero divisor raises
  \<^verbatim>\<open>ZeroDivisionError\<close>, after the conversions.\<close>

definition py_div :: "pynum \<Rightarrow> pynum \<Rightarrow> py_error + pynum" where
  "py_div a b =
     (case (a, b) of
        (PyInt x, PyInt y) \<Rightarrow>
          (if y = 0 then Inl ZeroDivisionError
           else (case round_double (x * sgn y) \<bar>y\<bar> 0 of
                   Finite m e \<Rightarrow> Inr (PyFloat (Finite m e))
                 | _ \<Rightarrow> Inl OverflowError))
      | _ \<Rightarrow> (case to_double a of Inl err \<Rightarrow> Inl err | Inr x \<Rightarrow>
              (case to_double b of Inl err \<Rightarrow> Inl err | Inr y \<Rightarrow>
                 if is_zero y then Inl ZeroDivisionError else Inr (PyFloat (fdiv x y)))))"

definition py_neg :: "pynum \<Rightarrow> pynum" where
  "py_neg a = (case a of PyInt n \<Rightarrow> PyInt (- n) | PyFloat x \<Rightarrow> PyFloat (fneg x))"

text \<open>The comparisons \<^verbatim>\<open>a > 0\<close> and \<^verbatim>\<open>a < 0\<close>; both are false for a NaN.\<close>

definition py_pos :: "pynum \<Rightarrow> bool" where
  "py_pos a = (case a of PyInt n \<Rightarrow> 0 < n | PyFloat x \<Rightarrow> 0 < dsign x)"

definition py_negative :: "pynum \<Rightarrow> bool" where
  "py_negative a = (case a of PyInt n \<Rightarrow> n < 0 | PyFloat x \<Rightarrow> dsign x < 0)"

text \<open>\<^verbatim>\<open>a == b\<close> on numbers: the comparison of the exact values, false when a NaN is involved
  and, beyond the finite numbers, true only for an infinity and itself.\<close>

definition py_eq :: "pynum \<Rightarrow> pynum \<Rightarrow> bool" where
  "py_eq a b =
     (case (a, b) of
        (PyInt x, PyInt y) \<Rightarrow> x = y
      | (PyInt x, PyFloat (Finite m e)) \<Rightarrow> x * 2 ^ nat (- min e 0) = m * 2 ^ nat (e - min e 0)
      | (PyFloat (Finite m e), PyInt y) \<Rightarrow> m * 2 ^ nat (e - min e 0) = y * 2 ^ nat (- min e 0)
      | (PyFloat (Finite m1 e1), PyFloat (Finite m2 e2)) \<Rightarrow>
          m1 * 2 ^ nat (e1 - min e1 e2) = m2 * 2 ^ nat (e2 - min e1 e2)
      | (PyFloat PInf, PyFloat PInf) \<Rightarrow> True
      | (PyFloat NInf, PyFloat NInf) \<Rightarrow> True
      | _ \<Rightarrow> False)"

text \<open>Three predicates on numbers: being a float; converting to a double without
  \<^verbatim>\<open>OverflowError\<close>; and being a float or an int below \<open>2 ^ 500\<close> in magnitude, so that also
  the product of two such numbers converts.\<close>

definition is_float :: "pynum \<Rightarrow> bool" where
  "is_float a = (case a of PyFloat x \<Rightarrow> True | PyInt n \<Rightarrow> False)"

definition convertible :: "pynum \<Rightarrow> bool" where
  "convertible a = (case to_double a of Inr x \<Rightarrow> True | Inl err \<Rightarrow> False)"

definition in_range :: "pynum \<Rightarrow> bool" where
  "in_range a = (case a of PyFloat x \<Rightarrow> True | PyInt n \<Rightarrow> \<bar>n\<bar> < 2 ^ 500)"

text \<open>Sequencing: an exception ends the computation.\<close>

definition bind_e :: "py_error + 'a \<Rightarrow> ('a \<Rightarrow> py_error + 'b) \<Rightarrow> py_error + 'b" where
  "bind_e x f = (case x of Inl err \<Rightarrow> Inl err | Inr v \<Rightarrow> f v)"

subsection \<open>The tables, with the doubles their literals denote\<close>

record sector_py =
  margin_py :: double
  stock_need_py :: double
  label_py :: string

record tax_zone_py =
  zone_label_py :: string
  salary_tax_py :: double
  corp_tax_py :: double

definition SECTOR_RATIOS_py :: "string \<rightharpoonup> sector_py" where
  "SECTOR_RATIOS_py = map_of
     [(''retail'', \<lparr>margin_py = float_literal 40 100, stock_need_py = float_literal 15 100,
         label_py = ''Retail (Store)''\<rparr>),
      (''services'', \<lparr>margin_py = float_literal 95 100, stock_need_py = float_literal 0 10,
         label_py = ''Services (Consulting)''\<rparr>),
      (''industry'', \<lparr>margin_py = float_literal 50 100, stock_need_py = float_literal 20 100,
         label_py = ''Industry (Manufacturing)''\<rparr>)]"

definition TAX_ZONES_py :: "string \<rightharpoonup> tax_zone_py" where
  "TAX_ZONES_py = map_of
     [(''eu'', \<lparr>zone_label_py = ''Europe (France/Germany/Italy)'',
         salary_tax_py = float_literal 85 100, corp_tax_py = float_literal 25 100\<rparr>),
      (''us'', \<lparr>zone_label_py = ''North America (USA/Canada)'',
         salary_tax_py = float_literal 25 100, corp_tax_py = float_literal 21 100\<rparr>),
      (''asia'', \<lparr>zone_label_py = ''Asia (SG/HK/Japan)'',
         salary_tax_py = float_literal 20 100, corp_tax_py = float_literal 17 100\<rparr>),
      (''latam'', \<lparr>zone_label_py = ''South America (Brazil)'',
         salary_tax_py = float_literal 60 100, corp_tax_py = float_literal 34 100\<rparr>),
      (''afr'', \<lparr>zone_label_py = ''Africa (Nigeria/SA)'',
         salary_tax_py = float_literal 15 100, corp_tax_py = float_literal 30 100\<rparr>)]"

subsection \<open>Lines 138 to 153\<close>

record costs_py =
  investment_py :: pynum
  margin_ratio_py :: pynum
  salary_tax_rate_py :: pynum
  corp_tax_rate_py :: pynum
  salary_multiplier_py :: pynum
  annual_amortization_py :: pynum
  total_salary_cost_monthly_py :: pynum
  rent_monthly_py :: pynum
  total_yearly_fixed_costs_py :: pynum
  yearly_breakeven_turnover_py :: pynum

text \<open>Each \<open>bind_e\<close> is one operation of the source, in the order in which Python evaluates
  them.\<close>

definition compute_costs_py_on ::
  "(string \<rightharpoonup> sector_py) \<Rightarrow> (string \<rightharpoonup> tax_zone_py) \<Rightarrow> string \<Rightarrow> string \<Rightarrow> pynum option \<Rightarrow>
   pynum \<Rightarrow> pynum \<Rightarrow> pynum \<Rightarrow> pynum \<Rightarrow> py_error + costs_py" where
  "compute_costs_py_on sectors zones region industry inv0 owner_salary rent nb_emp emp_salary =
     (let iv = (case inv0 of None \<Rightarrow> PyInt 0 | Some v \<Rightarrow> v) in
      case sectors industry of None \<Rightarrow> Inl KeyError | Some s \<Rightarrow>
     (case zones region of None \<Rightarrow> Inl KeyError | Some z \<Rightarrow>
        (let mr = PyFloat (margin_py s);
             st = PyFloat (salary_tax_py z);
             ct = PyFloat (corp_tax_py z)
         in bind_e (py_add (PyInt 1) st) (\<lambda>sm.
            bind_e (py_div iv (PyInt 5)) (\<lambda>am.
            bind_e (py_mul owner_salary sm) (\<lambda>own.
            bind_e (py_mul nb_emp emp_salary) (\<lambda>emp0.
            bind_e (py_mul emp0 sm) (\<lambda>emp.
            bind_e (py_add own emp) (\<lambda>sal.
            bind_e (py_mul rent (PyFloat (float_literal 12 10))) (\<lambda>rm.
            bind_e (py_add sal rm) (\<lambda>monthly.
            bind_e (py_mul monthly (PyInt 12)) (\<lambda>yearly.
            bind_e (py_add yearly am) (\<lambda>fixed.
            bind_e (py_div fixed mr) (\<lambda>be.
              Inr \<lparr>investment_py = iv, margin_ratio_py = mr, salary_tax_rate_py = st,
                   corp_tax_rate_py = ct, salary_multiplier_py = sm,
                   annual_amortization_py = am, total_salary_cost_monthly_py = sal,
                   rent_monthly_py = rm, total_yearly_fixed_costs_py = fixed,
                   yearly_breakeven_turnover_py = be\<rparr>))))))))))))))"

definition compute_costs_py ::
  "string \<Rightarrow> string \<Rightarrow> pynum option \<Rightarrow> pynum \<Rightarrow> pynum \<Rightarrow> pynum \<Rightarrow> pynum \<Rightarrow> py_error + costs_py" where
  "compute_costs_py = compute_costs_py_on SECTOR_RATIOS_py TAX_ZONES_py"

text \<open>The costs as the loops need them when no operation is to raise: floats throughout,
  and an investment that converts.\<close>

definition loop_ready :: "costs_py \<Rightarrow> bool" where
  "loop_ready k =
     (is_float (margin_ratio_py k) \<and> is_float (corp_tax_rate_py k)
      \<and> is_float (annual_amortization_py k) \<and> is_float (total_salary_cost_monthly_py k)
      \<and> is_float (rent_monthly_py k) \<and> is_float (total_yearly_fixed_costs_py k)
      \<and> is_float (yearly_breakeven_turnover_py k) \<and> in_range (investment_py k))"

subsection \<open>Part A in Python's numbers\<close>

definition scenarios_py :: "(string \<times> pynum) list" where
  "scenarios_py =
     [(''Stagnation'', PyFloat (float_literal 10 10)),
      (''Growth (+5%)'', PyFloat (float_literal 105 100)),
      (''Recession (-5%)'', PyFloat (float_literal 95 100))]"

record scen_year_py =
  py_turnover :: pynum
  py_gross_margin :: pynum
  py_ebit :: pynum
  py_tax :: pynum
  py_net_profit :: pynum
  py_cash_flow :: pynum
  py_cumulative_cash :: pynum

definition scenario_body_py ::
  "costs_py \<Rightarrow> pynum \<Rightarrow> nat \<Rightarrow> pynum \<Rightarrow> pynum \<Rightarrow> py_error + scen_year_py" where
  "scenario_body_py k rate i t cum =
     bind_e (if i > 0 then py_mul t rate else Inr t) (\<lambda>curr_turnover.
     bind_e (py_mul curr_turnover (margin_ratio_py k)) (\<lambda>gross_margin.
     bind_e (py_sub gross_margin (total_yearly_fixed_costs_py k)) (\<lambda>ebit.
     bind_e (if py_pos ebit then py_mul ebit (corp_tax_rate_py k) else Inr (PyInt 0)) (\<lambda>tax.
     bind_e (py_sub ebit tax) (\<lambda>net_profit.
     bind_e (py_add net_profit (annual_amortization_py k)) (\<lambda>cash_flow_year.
     bind_e (py_add cum cash_flow_year) (\<lambda>cumulative_cash.
       Inr \<lparr>py_turnover = curr_turnover, py_gross_margin = gross_margin, py_ebit = ebit,
            py_tax = tax, py_net_profit = net_profit, py_cash_flow = cash_flow_year,
            py_cumulative_cash = cumulative_cash\<rparr>)))))))"

fun scenario_loop_py ::
  "costs_py \<Rightarrow> pynum \<Rightarrow> nat list \<Rightarrow> pynum \<Rightarrow> pynum \<Rightarrow> py_error + scen_year_py list" where
  "scenario_loop_py k rate [] t cum = Inr []"
| "scenario_loop_py k rate (i # is) t cum =
     bind_e (scenario_body_py k rate i t cum) (\<lambda>y.
     bind_e (scenario_loop_py k rate is (py_turnover y) (py_cumulative_cash y)) (\<lambda>ys.
       Inr (y # ys)))"

definition scenario_years_py :: "costs_py \<Rightarrow> pynum \<Rightarrow> py_error + scen_year_py list" where
  "scenario_years_py k rate =
     scenario_loop_py k rate [0, 1, 2] (yearly_breakeven_turnover_py k)
       (py_neg (investment_py k))"

record graph_entry_py =
  name_py :: string
  profit_py :: "pynum list"
  cash_py :: "pynum list"

text \<open>The outer loop over the scenarios, in the order of the dictionary.\<close>

fun graph_loop_py :: "costs_py \<Rightarrow> (string \<times> pynum) list \<Rightarrow> py_error + graph_entry_py list" where
  "graph_loop_py k [] = Inr []"
| "graph_loop_py k (sc # scs) =
     bind_e (scenario_years_py k (snd sc)) (\<lambda>ys.
     bind_e (graph_loop_py k scs) (\<lambda>gs.
       Inr (\<lparr>name_py = fst sc, profit_py = map py_net_profit ys,
             cash_py = map py_cumulative_cash ys\<rparr> # gs)))"

subsection \<open>Part B in Python's numbers\<close>

record table_row_py =
  Year_py :: string
  Turnover_py :: pynum
  COGS_py :: pynum
  Gross_Margin_py :: pynum
  Personnel_py :: pynum
  Rent_Charges_py :: pynum
  EBITDA_py :: pynum
  Amortization_py :: pynum
  EBIT_py :: pynum
  Tax_py :: pynum
  Net_Profit_py :: pynum
  Cash_Position_py :: pynum
  Net_Assets_py :: pynum

definition table_body_py ::
  "costs_py \<Rightarrow> pynum \<Rightarrow> nat \<Rightarrow> pynum \<Rightarrow> pynum \<Rightarrow> py_error + table_row_py" where
  "table_body_py k t i cum nfa =
     bind_e (py_sub (PyInt 1) (margin_ratio_py k)) (\<lambda>one_minus.
     bind_e (py_mul t one_minus) (\<lambda>cogs.
     bind_e (py_mul t (margin_ratio_py k)) (\<lambda>gross_margin.
     bind_e (py_mul (total_salary_cost_monthly_py k) (PyInt 12)) (\<lambda>personnel.
     bind_e (py_mul (rent_monthly_py k) (PyInt 12)) (\<lambda>ext_charges.
     bind_e (py_sub gross_margin personnel) (\<lambda>gm_minus.
     bind_e (py_sub gm_minus ext_charges) (\<lambda>ebitda.
     bind_e (py_sub ebitda (annual_amortization_py k)) (\<lambda>ebit.
     bind_e (if py_pos ebit then py_mul ebit (corp_tax_rate_py k) else Inr (PyInt 0)) (\<lambda>tax.
     bind_e (py_sub ebit tax) (\<lambda>net_profit.
     bind_e (py_add net_profit (annual_amortization_py k)) (\<lambda>flow.
     bind_e (py_add cum flow) (\<lambda>cumulative_cash.
     bind_e (py_sub nfa (annual_amortization_py k)) (\<lambda>nfa1.
       Inr \<lparr>Year_py = years ! i, Turnover_py = t, COGS_py = py_neg cogs,
            Gross_Margin_py = gross_margin, Personnel_py = py_neg personnel,
            Rent_Charges_py = py_neg ext_charges, EBITDA_py = ebitda,
            Amortization_py = py_neg (annual_amortization_py k), EBIT_py = ebit,
            Tax_py = py_neg tax, Net_Profit_py = net_profit,
            Cash_Position_py = cumulative_cash,
            Net_Assets_py = (if py_negative nfa1 then PyInt 0 else nfa1)\<rparr>)))))))))))))"

fun table_loop_py ::
  "costs_py \<Rightarrow> pynum \<Rightarrow> nat list \<Rightarrow> pynum \<Rightarrow> pynum \<Rightarrow> py_error + table_row_py list" where
  "table_loop_py k t [] cum nfa = Inr []"
| "table_loop_py k t (i # is) cum nfa =
     bind_e (table_body_py k t i cum nfa) (\<lambda>row.
     bind_e (table_loop_py k t is (Cash_Position_py row) (Net_Assets_py row)) (\<lambda>rows.
       Inr (row # rows)))"

definition table_rows_py :: "costs_py \<Rightarrow> py_error + table_row_py list" where
  "table_rows_py k =
     table_loop_py k (yearly_breakeven_turnover_py k) [0, 1, 2] (py_neg (investment_py k))
       (investment_py k)"

subsection \<open>The engine in Python's numbers\<close>

record result_py =
  res_breakeven_turnover_py :: pynum
  res_corp_tax_rate_py :: pynum
  graph_data_py :: "graph_entry_py list"
  df_table_py :: "table_row_py list"

definition perform_calculations_py_on ::
  "(string \<rightharpoonup> sector_py) \<Rightarrow> (string \<rightharpoonup> tax_zone_py) \<Rightarrow> string \<Rightarrow> string \<Rightarrow> pynum option \<Rightarrow>
   pynum \<Rightarrow> pynum \<Rightarrow> pynum \<Rightarrow> pynum \<Rightarrow> py_error + result_py" where
  "perform_calculations_py_on sectors zones region industry inv0 owner_salary rent nb_emp emp_salary =
     bind_e (compute_costs_py_on sectors zones region industry inv0 owner_salary rent nb_emp emp_salary)
       (\<lambda>k.
     bind_e (graph_loop_py k scenarios_py) (\<lambda>gs.
     bind_e (table_rows_py k) (\<lambda>rows.
       Inr \<lparr>res_breakeven_turnover_py = yearly_breakeven_turnover_py k,
            res_corp_tax_rate_py = corp_tax_rate_py k,
            graph_data_py = gs, df_table_py = rows\<rparr>)))"

definition perform_calculations_py ::
  "string \<Rightarrow> string \<Rightarrow> pynum option \<Rightarrow> pynum \<Rightarrow> pynum \<Rightarrow> pynum \<Rightarrow> pynum \<Rightarrow> py_error + result_py" where
  "perform_calculations_py = perform_calculations_py_on SECTOR_RATIOS_py TAX_ZONES_py"

section \<open>Auxiliary facts\<close>

subsection \<open>The two loops, unfolded over \<^verbatim>\<open>range(3)\<close>\<close>

lemma scenario_years_unfold:
  "scenario_years k rate =
     (let y1 = scenario_body k rate 0 (yearly_breakeven_turnover k) (- investment k);
          y2 = scenario_body k rate 1 (sy_turnover y1) (sy_cumulative_cash y1);
          y3 = scenario_body k rate 2 (sy_turnover y2) (sy_cumulative_cash y2)
      in [y1, y2, y3])"
  unfolding scenario_years_def scenario_loop.simps Let_def by (rule refl)

lemma table_rows_unfold:
  "table_rows k =
     (let r1 = table_body k (yearly_breakeven_turnover k) 0 (- investment k) (investment k);
          r2 = table_body k (yearly_breakeven_turnover k) 1 (Cash_Position r1) (Net_Assets r1);
          r3 = table_body k (yearly_breakeven_turnover k) 2 (Cash_Position r2) (Net_Assets r2)
      in [r1, r2, r3])"
  unfolding table_rows_def table_loop.simps Let_def by (rule refl)

text \<open>The fields of one iteration, each in terms of the fields computed before it, in the
  order of the assignments of the source.\<close>

lemma scenario_body_simps:
  "sy_turnover (scenario_body k rate i t cum) = (if i > 0 then t * rate else t)"
  "sy_gross_margin (scenario_body k rate i t cum) =
     sy_turnover (scenario_body k rate i t cum) * margin_ratio k"
  "sy_ebit (scenario_body k rate i t cum) =
     sy_gross_margin (scenario_body k rate i t cum) - total_yearly_fixed_costs k"
  "sy_tax (scenario_body k rate i t cum) =
     (if sy_ebit (scenario_body k rate i t cum) > 0
      then sy_ebit (scenario_body k rate i t cum) * corp_tax_rate k else 0)"
  "sy_net_profit (scenario_body k rate i t cum) =
     sy_ebit (scenario_body k rate i t cum) - sy_tax (scenario_body k rate i t cum)"
  "sy_cash_flow (scenario_body k rate i t cum) =
     sy_net_profit (scenario_body k rate i t cum) + annual_amortization k"
  "sy_cumulative_cash (scenario_body k rate i t cum) =
     cum + sy_cash_flow (scenario_body k rate i t cum)"
  by (simp_all add: scenario_body_def Let_def)

lemma table_body_simps:
  "Year (table_body k t i cum nfa) = years ! i"
  "Turnover (table_body k t i cum nfa) = t"
  "COGS (table_body k t i cum nfa) = - (t * (1 - margin_ratio k))"
  "Gross_Margin (table_body k t i cum nfa) = t * margin_ratio k"
  "Personnel (table_body k t i cum nfa) = - (total_salary_cost_monthly k * 12)"
  "Rent_Charges (table_body k t i cum nfa) = - (rent_monthly k * 12)"
  "EBITDA (table_body k t i cum nfa) =
     Gross_Margin (table_body k t i cum nfa) - total_salary_cost_monthly k * 12
       - rent_monthly k * 12"
  "Amortization (table_body k t i cum nfa) = - annual_amortization k"
  "EBIT (table_body k t i cum nfa) = EBITDA (table_body k t i cum nfa) - annual_amortization k"
  "Tax (table_body k t i cum nfa) =
     - (if EBIT (table_body k t i cum nfa) > 0
        then EBIT (table_body k t i cum nfa) * corp_tax_rate k else 0)"
  "Net_Profit (table_body k t i cum nfa) =
     EBIT (table_body k t i cum nfa) + Tax (table_body k t i cum nfa)"
  "Cash_Position (table_body k t i cum nfa) =
     cum + (Net_Profit (table_body k t i cum nfa) + annual_amortization k)"
  "Net_Assets (table_body k t i cum nfa) =
     (if nfa - annual_amortization k < 0 then 0 else nfa - annual_amortization k)"
  by (simp_all add: table_body_def Let_def)

text \<open>A property of the body holds for every year the loop produces.\<close>

lemma scenario_loop_all:
  assumes "\<And>i t cum. P (scenario_body k rate i t cum)"
  shows "\<forall>y\<in>set (scenario_loop k rate is t cum). P y"
  by (induction "is" arbitrary: t cum) (simp_all add: Let_def assms)

lemma table_loop_all:
  assumes "\<And>i cum nfa. P (table_body k t i cum nfa)"
  shows "\<forall>row\<in>set (table_loop k t is cum nfa). P row"
  by (induction "is" arbitrary: cum nfa) (simp_all add: Let_def assms)

text \<open>The turnover of a scenario compounds the rate from the second year on.\<close>

lemma scenario_years_turnover:
  "map sy_turnover (scenario_years k rate) =
     [yearly_breakeven_turnover k, yearly_breakeven_turnover k * rate,
      yearly_breakeven_turnover k * rate * rate]"
proof -
  define y1 where "y1 = scenario_body k rate 0 (yearly_breakeven_turnover k) (- investment k)"
  define y2 where "y2 = scenario_body k rate 1 (sy_turnover y1) (sy_cumulative_cash y1)"
  define y3 where "y3 = scenario_body k rate 2 (sy_turnover y2) (sy_cumulative_cash y2)"
  have ys: "scenario_years k rate = [y1, y2, y3]"
    by (simp add: scenario_years_unfold Let_def y1_def y2_def y3_def)
  have t1: "sy_turnover y1 = yearly_breakeven_turnover k"
    by (simp add: y1_def scenario_body_simps(1))
  have t2: "sy_turnover y2 = yearly_breakeven_turnover k * rate"
    by (simp add: y2_def scenario_body_simps(1) t1)
  have t3: "sy_turnover y3 = yearly_breakeven_turnover k * rate * rate"
    by (simp add: y3_def scenario_body_simps(1) t2)
  show ?thesis
    by (simp add: ys t1 t2 t3)
qed

subsection \<open>What a successful run has computed\<close>

lemma perform_calculations_on_Inr:
  assumes "perform_calculations_on S Z region industry inv0 owner_salary rent nb_emp emp_salary = Inr r"
  shows "\<exists>k. compute_costs_on S Z region industry inv0 owner_salary rent nb_emp emp_salary = Inr k
           \<and> r = result_of k"
  using assms by (auto simp: perform_calculations_on_def split: sum.splits)

lemma perform_calculations_Inr:
  assumes "perform_calculations region industry inv0 owner_salary rent nb_emp emp_salary = Inr r"
  shows "\<exists>k. compute_costs region industry inv0 owner_salary rent nb_emp emp_salary = Inr k
           \<and> r = result_of k"
  using assms unfolding perform_calculations_def compute_costs_def
  by (rule perform_calculations_on_Inr)

lemma perform_calculations_of_costs:
  assumes "compute_costs region industry inv0 owner_salary rent nb_emp emp_salary = Inr k"
  shows "perform_calculations region industry inv0 owner_salary rent nb_emp emp_salary = Inr (result_of k)"
  using assms by (simp add: perform_calculations_def perform_calculations_on_def compute_costs_def)

lemma compute_costs_on_Inr:
  assumes "compute_costs_on S Z region industry inv0 owner_salary rent nb_emp emp_salary = Inr k"
  shows "\<exists>s z. S industry = Some s \<and> Z region = Some z \<and> margin s \<noteq> 0
           \<and> margin_ratio k = margin s \<and> corp_tax_rate k = corp_tax z
           \<and> salary_tax_rate k = salary_tax z"
    and "margin_ratio k \<noteq> 0"
    and "investment k = (case inv0 of None \<Rightarrow> 0 | Some v \<Rightarrow> v)"
    and "salary_multiplier k = 1 + salary_tax_rate k"
    and "annual_amortization k = investment k / 5"
    and "total_salary_cost_monthly k =
           owner_salary * salary_multiplier k + nb_emp * emp_salary * salary_multiplier k"
    and "rent_monthly k = rent * 1.2"
    and "total_yearly_fixed_costs k =
           (total_salary_cost_monthly k + rent_monthly k) * 12 + annual_amortization k"
    and "yearly_breakeven_turnover k = total_yearly_fixed_costs k / margin_ratio k"
  using assms
  by (auto simp: compute_costs_on_def py_truediv_def Let_def split: option.splits if_splits)

lemma breakeven_times_margin:
  assumes "compute_costs_on S Z region industry inv0 owner_salary rent nb_emp emp_salary = Inr k"
  shows "yearly_breakeven_turnover k * margin_ratio k = total_yearly_fixed_costs k"
  using compute_costs_on_Inr(2,9)[OF assms] by simp

lemma result_of_lengths:
  "length (graph_data (result_of k)) = 3"
  "\<forall>g\<in>set (graph_data (result_of k)). length (profit g) = 3 \<and> length (cash g) = 3"
  "length (df_table (result_of k)) = 3"
  by (simp_all add: result_of_def scenarios_def graph_entry_of_def scenario_years_unfold
      table_rows_unfold Let_def)

subsection \<open>The rate tables\<close>

lemma SECTOR_RATIOS_margin_pos: "SECTOR_RATIOS industry = Some s \<Longrightarrow> 0 < margin s"
  by (auto simp: SECTOR_RATIOS_def split: if_splits)

lemma TAX_ZONES_corp_tax_nonneg: "TAX_ZONES region = Some z \<Longrightarrow> 0 \<le> corp_tax z"
  by (auto simp: TAX_ZONES_def split: if_splits)

lemma SECTOR_RATIOS_retail:
  "SECTOR_RATIOS ''retail'' = Some \<lparr>margin = 0.40, stock_need = 0.15, label = ''Retail (Store)''\<rparr>"
  by (simp add: SECTOR_RATIOS_def)

lemma TAX_ZONES_us:
  "TAX_ZONES ''us'' =
     Some \<lparr>zone_label = ''North America (USA/Canada)'', salary_tax = 0.25, corp_tax = 0.21\<rparr>"
  by (simp add: TAX_ZONES_def)

lemma compute_costs_rates:
  assumes "compute_costs region industry inv0 owner_salary rent nb_emp emp_salary = Inr k"
  shows "0 < margin_ratio k" and "0 \<le> corp_tax_rate k"
  using compute_costs_on_Inr(1)[OF assms[unfolded compute_costs_def]]
  by (auto dest: SECTOR_RATIOS_margin_pos TAX_ZONES_corp_tax_nonneg)

subsection \<open>A year at break-even turnover\<close>

text \<open>When the margin on the turnover equals the fixed costs, EBIT, tax and net profit are 0
  and the cumulative cash grows by the amortization.\<close>

lemma scenario_body_at_breakeven:
  assumes "sy_turnover (scenario_body k rate i t cum) * margin_ratio k = total_yearly_fixed_costs k"
  shows "sy_ebit (scenario_body k rate i t cum) = 0"
    and "sy_tax (scenario_body k rate i t cum) = 0"
    and "sy_net_profit (scenario_body k rate i t cum) = 0"
    and "sy_cumulative_cash (scenario_body k rate i t cum) = cum + annual_amortization k"
proof -
  show e: "sy_ebit (scenario_body k rate i t cum) = 0"
    using assms by (simp add: scenario_body_simps(2,3))
  show x: "sy_tax (scenario_body k rate i t cum) = 0"
    using e by (simp add: scenario_body_simps(4))
  show n: "sy_net_profit (scenario_body k rate i t cum) = 0"
    using e x by (simp add: scenario_body_simps(5))
  show "sy_cumulative_cash (scenario_body k rate i t cum) = cum + annual_amortization k"
    using n by (simp add: scenario_body_simps(6,7))
qed

lemma table_body_at_breakeven:
  assumes "t * margin_ratio k = total_yearly_fixed_costs k"
    and "total_yearly_fixed_costs k =
           (total_salary_cost_monthly k + rent_monthly k) * 12 + annual_amortization k"
  shows "EBIT (table_body k t i cum nfa) = 0"
    and "Tax (table_body k t i cum nfa) = 0"
    and "Net_Profit (table_body k t i cum nfa) = 0"
    and "Cash_Position (table_body k t i cum nfa) = cum + annual_amortization k"
proof -
  show e: "EBIT (table_body k t i cum nfa) = 0"
    using assms by (simp add: table_body_simps(4,7,9) algebra_simps)
  show x: "Tax (table_body k t i cum nfa) = 0"
    using e by (simp add: table_body_simps(10))
  show n: "Net_Profit (table_body k t i cum nfa) = 0"
    using e x by (simp add: table_body_simps(11))
  show "Cash_Position (table_body k t i cum nfa) = cum + annual_amortization k"
    using n by (simp add: table_body_simps(12))
qed

lemma stagnation_years:
  assumes be: "yearly_breakeven_turnover k * margin_ratio k = total_yearly_fixed_costs k"
  shows "map sy_ebit (scenario_years k 1) = [0, 0, 0]"
    and "map sy_net_profit (scenario_years k 1) = [0, 0, 0]"
    and "map sy_cumulative_cash (scenario_years k 1) =
           [- investment k + annual_amortization k,
            - investment k + annual_amortization k + annual_amortization k,
            - investment k + annual_amortization k + annual_amortization k + annual_amortization k]"
proof -
  define y1 where "y1 = scenario_body k 1 0 (yearly_breakeven_turnover k) (- investment k)"
  define y2 where "y2 = scenario_body k 1 1 (sy_turnover y1) (sy_cumulative_cash y1)"
  define y3 where "y3 = scenario_body k 1 2 (sy_turnover y2) (sy_cumulative_cash y2)"
  have ys: "scenario_years k 1 = [y1, y2, y3]"
    by (simp add: scenario_years_unfold Let_def y1_def y2_def y3_def)
  have t1: "sy_turnover y1 = yearly_breakeven_turnover k"
    by (simp add: y1_def scenario_body_simps(1))
  have t2: "sy_turnover y2 = yearly_breakeven_turnover k"
    using t1 by (simp add: y2_def scenario_body_simps(1))
  have t3: "sy_turnover y3 = yearly_breakeven_turnover k"
    using t2 by (simp add: y3_def scenario_body_simps(1))
  note f1 = scenario_body_at_breakeven[of k 1 0 "yearly_breakeven_turnover k" "- investment k",
      folded y1_def, unfolded t1, OF be]
  note f2 = scenario_body_at_breakeven[of k 1 1 "sy_turnover y1" "sy_cumulative_cash y1",
      folded y2_def, unfolded t2, OF be]
  note f3 = scenario_body_at_breakeven[of k 1 2 "sy_turnover y2" "sy_cumulative_cash y2",
      folded y3_def, unfolded t3, OF be]
  show "map sy_ebit (scenario_years k 1) = [0, 0, 0]"
    by (simp add: ys f1(1) f2(1) f3(1))
  show "map sy_net_profit (scenario_years k 1) = [0, 0, 0]"
    by (simp add: ys f1(3) f2(3) f3(3))
  show "map sy_cumulative_cash (scenario_years k 1) =
           [- investment k + annual_amortization k,
            - investment k + annual_amortization k + annual_amortization k,
            - investment k + annual_amortization k + annual_amortization k + annual_amortization k]"
    by (simp add: ys f1(4) f2(4) f3(4))
qed

lemma table_rows_at_breakeven:
  assumes be: "yearly_breakeven_turnover k * margin_ratio k = total_yearly_fixed_costs k"
    and fx: "total_yearly_fixed_costs k =
           (total_salary_cost_monthly k + rent_monthly k) * 12 + annual_amortization k"
  shows "map EBIT (table_rows k) = [0, 0, 0]"
    and "map Tax (table_rows k) = [0, 0, 0]"
    and "map Net_Profit (table_rows k) = [0, 0, 0]"
    and "map Cash_Position (table_rows k) =
           [- investment k + annual_amortization k,
            - investment k + annual_amortization k + annual_amortization k,
            - investment k + annual_amortization k + annual_amortization k + annual_amortization k]"
proof -
  define b where "b = yearly_breakeven_turnover k"
  define r1 where "r1 = table_body k b 0 (- investment k) (investment k)"
  define r2 where "r2 = table_body k b 1 (Cash_Position r1) (Net_Assets r1)"
  define r3 where "r3 = table_body k b 2 (Cash_Position r2) (Net_Assets r2)"
  have rs: "table_rows k = [r1, r2, r3]"
    by (simp add: table_rows_unfold Let_def r1_def r2_def r3_def b_def)
  have be': "b * margin_ratio k = total_yearly_fixed_costs k"
    using be by (simp add: b_def)
  note f1 = table_body_at_breakeven[OF be' fx, of 0 "- investment k" "investment k", folded r1_def]
  note f2 = table_body_at_breakeven[OF be' fx, of 1 "Cash_Position r1" "Net_Assets r1", folded r2_def]
  note f3 = table_body_at_breakeven[OF be' fx, of 2 "Cash_Position r2" "Net_Assets r2", folded r3_def]
  show "map EBIT (table_rows k) = [0, 0, 0]"
    by (simp add: rs f1(1) f2(1) f3(1))
  show "map Tax (table_rows k) = [0, 0, 0]"
    by (simp add: rs f1(2) f2(2) f3(2))
  show "map Net_Profit (table_rows k) = [0, 0, 0]"
    by (simp add: rs f1(3) f2(3) f3(3))
  show "map Cash_Position (table_rows k) =
           [- investment k + annual_amortization k,
            - investment k + annual_amortization k + annual_amortization k,
            - investment k + annual_amortization k + annual_amortization k + annual_amortization k]"
    by (simp add: rs f1(4) f2(4) f3(4))
qed

subsection \<open>The tax branch\<close>

lemma scenario_body_tax:
  "sy_ebit (scenario_body k rate i t cum) \<le> 0 \<Longrightarrow> sy_tax (scenario_body k rate i t cum) = 0"
  "0 \<le> corp_tax_rate k \<Longrightarrow> 0 \<le> sy_tax (scenario_body k rate i t cum)"
  by (simp_all add: scenario_body_simps(4))

lemma table_body_tax:
  "EBIT (table_body k t i cum nfa) \<le> 0 \<Longrightarrow> Tax (table_body k t i cum nfa) = 0"
  "0 \<le> corp_tax_rate k \<Longrightarrow> Tax (table_body k t i cum nfa) \<le> 0"
  by (simp_all add: table_body_simps(10))

subsection \<open>Concrete runs\<close>

text \<open>The default inputs of the form, and two variations with a negative input.\<close>

lemma us_retail_costs:
  "compute_costs ''us'' ''retail'' (Some 20000) 2000 3000 1 2000 =
     Inr \<lparr>investment = 20000, margin_ratio = 0.40, salary_tax_rate = 0.25, corp_tax_rate = 0.21,
          salary_multiplier = 1.25, annual_amortization = 4000,
          total_salary_cost_monthly = 5000, rent_monthly = 3600,
          total_yearly_fixed_costs = 107200, yearly_breakeven_turnover = 268000\<rparr>"
  by (simp add: compute_costs_def compute_costs_on_def SECTOR_RATIOS_def TAX_ZONES_def
      py_truediv_def Let_def)

lemmas us_retail_result = perform_calculations_of_costs[OF us_retail_costs]

lemma negative_investment_costs:
  "compute_costs ''us'' ''retail'' (Some (- 20000)) 2000 3000 1 2000 =
     Inr \<lparr>investment = - 20000, margin_ratio = 0.40, salary_tax_rate = 0.25, corp_tax_rate = 0.21,
          salary_multiplier = 1.25, annual_amortization = - 4000,
          total_salary_cost_monthly = 5000, rent_monthly = 3600,
          total_yearly_fixed_costs = 99200, yearly_breakeven_turnover = 248000\<rparr>"
  by (simp add: compute_costs_def compute_costs_on_def SECTOR_RATIOS_def TAX_ZONES_def
      py_truediv_def Let_def)

lemma negative_investment_result:
  "perform_calculations ''us'' ''retail'' (Some (- 20000)) 2000 3000 1 2000 =
     Inr (result_of \<lparr>investment = - 20000, margin_ratio = 0.40, salary_tax_rate = 0.25,
          corp_tax_rate = 0.21, salary_multiplier = 1.25, annual_amortization = - 4000,
          total_salary_cost_monthly = 5000, rent_monthly = 3600,
          total_yearly_fixed_costs = 99200, yearly_breakeven_turnover = 248000\<rparr>)"
  by (rule perform_calculations_of_costs[OF negative_investment_costs])

lemma negative_employees_costs:
  "compute_costs ''us'' ''retail'' (Some 20000) 2000 3000 (- 1) 2000 =
     Inr \<lparr>investment = 20000, margin_ratio = 0.40, salary_tax_rate = 0.25, corp_tax_rate = 0.21,
          salary_multiplier = 1.25, annual_amortization = 4000,
          total_salary_cost_monthly = 0, rent_monthly = 3600,
          total_yearly_fixed_costs = 47200, yearly_breakeven_turnover = 118000\<rparr>"
  by (simp add: compute_costs_def compute_costs_on_def SECTOR_RATIOS_def TAX_ZONES_def
      py_truediv_def Let_def)

section \<open>Auxiliary facts on Python's numbers\<close>

subsection \<open>Conversions that cannot overflow\<close>

lemma bit_length_nonneg: "0 \<le> bit_length n"
  by (induction n rule: bit_length.induct) (subst bit_length.simps, simp)

lemma bit_length_le: "n < 2 ^ k \<Longrightarrow> bit_length n \<le> int k"
proof (induction n arbitrary: k rule: bit_length.induct)
  case (1 n)
  show ?case
  proof (cases "n \<le> 0")
    case True
    then show ?thesis by (subst bit_length.simps) simp
  next
    case False
    with "1.prems" have "0 < k" by (cases k) auto
    then obtain j where k: "k = Suc j" by (cases k) auto
    from "1.prems" k have "n div 2 < 2 ^ j" by simp
    from "1.IH"[OF False this] show ?thesis
      using False k by (subst bit_length.simps) simp
  qed
qed

lemma floor_log2_le: "floor_log2 n d \<le> bit_length \<bar>n\<bar>"
  using bit_length_nonneg[of d] by (simp add: floor_log2_def floor_log2_from_def)

lemma pack_double_finite: "t \<le> 970 \<Longrightarrow> \<exists>m1 t1. pack_double m t = Finite m1 t1"
  by (simp add: pack_double_def)

lemma round_double_finite:
  assumes "\<bar>n\<bar> < 2 ^ 1000"
  shows "\<exists>m e. round_double n d 0 = Finite m e"
proof (cases "n = 0")
  case True
  then show ?thesis by (simp add: round_double_def)
next
  case False
  have "floor_log2 n d \<le> 1000"
    using floor_log2_le[of n d] bit_length_le[OF assms] by simp
  then have "max (floor_log2 n d + 0 - 52) (- 1074) \<le> 970" by simp
  then show ?thesis
    using False unfolding round_double_def round_at_def
    by (simp only: if_False pack_double_finite)
qed

lemma convertible_float: "convertible (PyFloat x)"
  by (simp add: convertible_def to_double_def)

lemma convertible_int: "\<bar>n\<bar> < 2 ^ 1000 \<Longrightarrow> convertible (PyInt n)"
  using round_double_finite[of n 1] by (auto simp: convertible_def to_double_def)

lemma convertibleE: "convertible a \<Longrightarrow> \<exists>x. to_double a = Inr x"
  by (simp add: convertible_def split: sum.splits)

lemma in_range_convertible: "in_range a \<Longrightarrow> convertible a"
proof (cases a)
  case (PyInt n)
  assume "in_range a"
  with PyInt have "\<bar>n\<bar> < 2 ^ 500" by (simp add: in_range_def)
  also have "(2::int) ^ 500 \<le> 2 ^ 1000" by (rule power_increasing) simp_all
  finally show ?thesis using PyInt by (simp add: convertible_int)
next
  case (PyFloat x)
  then show ?thesis by (simp add: convertible_float)
qed

lemma is_floatE: "is_float a \<Longrightarrow> \<exists>x. a = PyFloat x"
  by (cases a) (simp_all add: is_float_def)

lemma is_float_PyFloat: "is_float (PyFloat x)"
  by (simp add: is_float_def)

lemma is_float_convertible: "is_float a \<Longrightarrow> convertible a"
  by (auto dest: is_floatE simp: convertible_float)

lemma in_range_neg: "in_range (py_neg a) = in_range a"
  by (cases a) (simp_all add: in_range_def py_neg_def)

lemma to_double_float: "to_double (PyFloat x) = Inr x"
  by (simp add: to_double_def)

lemma to_double_five: "to_double (PyInt 5) = Inr (Finite 5629499534213120 (- 50))"
  by code_simp

lemma convertible_small_ints: "convertible (PyInt 0)" "convertible (PyInt 1)" "convertible (PyInt 12)"
  by (rule convertible_int, simp)+

subsection \<open>Operations that return\<close>

text \<open>An operation with a float operand returns a float as soon as the other operand
  converts.\<close>

lemma py_binop_float_right:
  "convertible a \<Longrightarrow> \<exists>c. py_binop fi ff a (PyFloat y) = Inr (PyFloat c)"
  by (cases a) (auto simp: py_binop_def to_double_def dest!: convertibleE split: sum.splits)

lemma py_binop_float_left:
  "convertible b \<Longrightarrow> \<exists>c. py_binop fi ff (PyFloat x) b = Inr (PyFloat c)"
  by (cases b) (auto simp: py_binop_def to_double_def dest!: convertibleE split: sum.splits)

lemma py_binop_float:
  assumes "convertible a" and "convertible b" and "is_float a \<or> is_float b"
  shows "\<exists>c. py_binop fi ff a b = Inr c \<and> is_float c"
proof -
  have "\<exists>c. py_binop fi ff a b = Inr (PyFloat c)"
    using assms py_binop_float_right[of a fi ff] py_binop_float_left[of b fi ff]
    by (auto dest!: is_floatE)
  then show ?thesis by (auto simp: is_float_PyFloat)
qed

lemma py_op_float:
  assumes "convertible a" and "convertible b" and "is_float a \<or> is_float b"
  shows "\<exists>c. py_add a b = Inr c \<and> is_float c"
    and "\<exists>c. py_sub a b = Inr c \<and> is_float c"
    and "\<exists>c. py_mul a b = Inr c \<and> is_float c"
  unfolding py_add_def py_sub_def py_mul_def by (rule py_binop_float[OF assms])+

lemma py_mul_in_range:
  assumes "in_range a" and "in_range b"
  shows "\<exists>c. py_mul a b = Inr c \<and> convertible c"
proof (cases a; cases b)
  fix x y assume a: "a = PyInt x" and b: "b = PyInt y"
  from assms a b have "\<bar>x\<bar> < 2 ^ 500" "\<bar>y\<bar> < 2 ^ 500" by (simp_all add: in_range_def)
  then have "\<bar>x\<bar> * \<bar>y\<bar> < 2 ^ 500 * 2 ^ 500"
    by (intro mult_strict_mono) simp_all
  then have "\<bar>x * y\<bar> < 2 ^ 1000" by (simp add: abs_mult flip: power_add)
  then show ?thesis using a b by (simp add: py_mul_def py_binop_def convertible_int)
next
  fix x y assume "a = PyInt x" "b = PyFloat y"
  with py_binop_float_right[OF in_range_convertible[OF assms(1)], of "(*)" fmul y]
  show ?thesis by (auto simp: py_mul_def convertible_float)
next
  fix x y assume "a = PyFloat x" "b = PyInt y"
  with py_binop_float_left[OF in_range_convertible[OF assms(2)], of "(*)" fmul x]
  show ?thesis by (auto simp: py_mul_def convertible_float)
next
  fix x y assume "a = PyFloat x" "b = PyFloat y"
  with py_binop_float_left[OF convertible_float, of "(*)" fmul x y]
  show ?thesis by (auto simp: py_mul_def convertible_float)
qed

lemma py_div_five:
  assumes "in_range a"
  shows "\<exists>c. py_div a (PyInt 5) = Inr (PyFloat c)"
proof (cases a)
  case (PyInt n)
  with assms have "\<bar>n\<bar> < 2 ^ 500" by (simp add: in_range_def)
  also have "(2::int) ^ 500 \<le> 2 ^ 1000" by (rule power_increasing) simp_all
  finally have "\<exists>m e. round_double n 5 0 = Finite m e" by (rule round_double_finite)
  then show ?thesis using PyInt by (auto simp: py_div_def)
next
  case (PyFloat x)
  then show ?thesis by (simp add: py_div_def to_double_float to_double_five is_zero_def)
qed

lemma py_div_floats:
  "py_div (PyFloat x) (PyFloat y) =
     (if is_zero y then Inl ZeroDivisionError else Inr (PyFloat (fdiv x y)))"
  by (simp add: py_div_def to_double_float)

subsection \<open>Lines 138 to 153 return, or raise at the division\<close>

lemma compute_costs_py_on_outcome:
  assumes s: "sectors industry = Some s" and z: "zones region = Some z"
    and iv: "case inv0 of None \<Rightarrow> True | Some v \<Rightarrow> in_range v"
    and os: "in_range owner_salary" and rt: "in_range rent"
    and ne: "in_range nb_emp" and es: "in_range emp_salary"
  shows "if is_zero (margin_py s)
         then compute_costs_py_on sectors zones region industry inv0 owner_salary rent nb_emp
                emp_salary = Inl ZeroDivisionError
         else (\<exists>k. compute_costs_py_on sectors zones region industry inv0 owner_salary rent nb_emp
                     emp_salary = Inr k \<and> loop_ready k)"
proof -
  define inv1 where "inv1 = (case inv0 of None \<Rightarrow> PyInt 0 | Some v \<Rightarrow> v)"
  have iv1: "in_range inv1"
    using iv by (cases inv0) (simp_all add: inv1_def in_range_def)
  note cf = is_float_convertible[OF is_float_PyFloat] and fl = is_float_PyFloat
  from py_op_float(1)[OF convertible_small_ints(2) cf, of "salary_tax_py z"] fl
  obtain sm where sm: "py_add (PyInt 1) (PyFloat (salary_tax_py z)) = Inr sm" "is_float sm"
    by blast
  from py_div_five[OF iv1]
  obtain am where am: "py_div inv1 (PyInt 5) = Inr (PyFloat am)" by blast
  from py_op_float(3)[OF in_range_convertible[OF os] is_float_convertible[OF sm(2)]] sm(2)
  obtain own where own: "py_mul owner_salary sm = Inr own" "is_float own" by blast
  from py_mul_in_range[OF ne es]
  obtain emp0 where emp0: "py_mul nb_emp emp_salary = Inr emp0" "convertible emp0" by blast
  from py_op_float(3)[OF emp0(2) is_float_convertible[OF sm(2)]] sm(2)
  obtain emp where emp: "py_mul emp0 sm = Inr emp" "is_float emp" by blast
  from py_op_float(1)[OF is_float_convertible[OF own(2)] is_float_convertible[OF emp(2)]] own(2)
  obtain sal where sal: "py_add own emp = Inr sal" "is_float sal" by blast
  from py_op_float(3)[OF in_range_convertible[OF rt] cf, of "float_literal 12 10"] fl
  obtain rm where rm: "py_mul rent (PyFloat (float_literal 12 10)) = Inr rm" "is_float rm" by blast
  from py_op_float(1)[OF is_float_convertible[OF sal(2)] is_float_convertible[OF rm(2)]] sal(2)
  obtain monthly where monthly: "py_add sal rm = Inr monthly" "is_float monthly" by blast
  from py_op_float(3)[OF is_float_convertible[OF monthly(2)] convertible_small_ints(3)] monthly(2)
  obtain yearly where yearly: "py_mul monthly (PyInt 12) = Inr yearly" "is_float yearly" by blast
  from py_op_float(1)[OF is_float_convertible[OF yearly(2)] cf, of am] yearly(2)
  obtain fixed where fixed: "py_add yearly (PyFloat am) = Inr fixed" "is_float fixed" by blast
  from is_floatE[OF fixed(2)] obtain fx where fx: "fixed = PyFloat fx" by blast
  have be: "py_div fixed (PyFloat (margin_py s)) =
      (if is_zero (margin_py s) then Inl ZeroDivisionError
       else Inr (PyFloat (fdiv fx (margin_py s))))"
    by (simp add: fx py_div_floats)
  have c: "compute_costs_py_on sectors zones region industry inv0 owner_salary rent nb_emp emp_salary
      = (if is_zero (margin_py s) then Inl ZeroDivisionError
         else Inr \<lparr>investment_py = inv1, margin_ratio_py = PyFloat (margin_py s),
             salary_tax_rate_py = PyFloat (salary_tax_py z),
             corp_tax_rate_py = PyFloat (corp_tax_py z), salary_multiplier_py = sm,
             annual_amortization_py = PyFloat am, total_salary_cost_monthly_py = sal,
             rent_monthly_py = rm, total_yearly_fixed_costs_py = fixed,
             yearly_breakeven_turnover_py = PyFloat (fdiv fx (margin_py s))\<rparr>)"
    unfolding compute_costs_py_on_def Let_def inv1_def[symmetric]
    by (simp add: s z bind_e_def sm(1) am own(1) emp0(1) emp(1) sal(1) rm(1) monthly(1) yearly(1)
        fixed(1) be)
  have l: "loop_ready \<lparr>investment_py = inv1, margin_ratio_py = PyFloat (margin_py s),
             salary_tax_rate_py = PyFloat (salary_tax_py z),
             corp_tax_rate_py = PyFloat (corp_tax_py z), salary_multiplier_py = sm,
             annual_amortization_py = PyFloat am, total_salary_cost_monthly_py = sal,
             rent_monthly_py = rm, total_yearly_fixed_costs_py = fixed,
             yearly_breakeven_turnover_py = PyFloat (fdiv fx (margin_py s))\<rparr>"
    by (simp add: loop_ready_def fl sal(2) rm(2) fixed(2) iv1)
  show ?thesis
  proof (cases "is_zero (margin_py s)")
    case True
    then show ?thesis by (simp add: c)
  next
    case False
    with c l show ?thesis by auto
  qed
qed

subsection \<open>The loops return\<close>

lemma scenario_body_py_returns:
  assumes k: "loop_ready k" and rate: "is_float rate" and t: "is_float t" and cum: "convertible cum"
  shows "\<exists>y. scenario_body_py k rate i t cum = Inr y \<and> is_float (py_turnover y)
             \<and> is_float (py_cumulative_cash y)"
proof -
  note c = is_float_convertible
  from k have m: "is_float (margin_ratio_py k)" and f: "is_float (total_yearly_fixed_costs_py k)"
    and ct: "is_float (corp_tax_rate_py k)" and a: "is_float (annual_amortization_py k)"
    by (simp_all add: loop_ready_def)
  from py_op_float(3)[OF c[OF t] c[OF rate]] t
  obtain tr where tr: "py_mul t rate = Inr tr" "is_float tr" by blast
  define curr where "curr = (if i > 0 then tr else t)"
  have curr: "(if i > 0 then py_mul t rate else Inr t) = Inr curr" "is_float curr"
    using tr t by (simp_all add: curr_def)
  from py_op_float(3)[OF c[OF curr(2)] c[OF m]] m
  obtain gm where gm: "py_mul curr (margin_ratio_py k) = Inr gm" "is_float gm" by blast
  from py_op_float(2)[OF c[OF gm(2)] c[OF f]] f
  obtain ebit where ebit: "py_sub gm (total_yearly_fixed_costs_py k) = Inr ebit" "is_float ebit"
    by blast
  from py_op_float(3)[OF c[OF ebit(2)] c[OF ct]] ct
  obtain et where et: "py_mul ebit (corp_tax_rate_py k) = Inr et" "is_float et" by blast
  define tax where "tax = (if py_pos ebit then et else PyInt 0)"
  have tax: "(if py_pos ebit then py_mul ebit (corp_tax_rate_py k) else Inr (PyInt 0)) = Inr tax"
    "convertible tax"
    using et by (simp_all add: tax_def c convertible_small_ints(1))
  from py_op_float(2)[OF c[OF ebit(2)] tax(2)] ebit(2)
  obtain np where np: "py_sub ebit tax = Inr np" "is_float np" by blast
  from py_op_float(1)[OF c[OF np(2)] c[OF a]] a
  obtain cf where cf: "py_add np (annual_amortization_py k) = Inr cf" "is_float cf" by blast
  from py_op_float(1)[OF cum c[OF cf(2)]] cf(2)
  obtain cc where cc: "py_add cum cf = Inr cc" "is_float cc" by blast
  show ?thesis
    unfolding scenario_body_py_def
    by (simp add: bind_e_def curr gm ebit tax(1) np cf cc)
qed

lemma scenario_loop_py_returns:
  assumes "loop_ready k" and "is_float rate"
  shows "is_float t \<Longrightarrow> convertible cum \<Longrightarrow>
         \<exists>ys. scenario_loop_py k rate is t cum = Inr ys \<and> length ys = length is"
proof (induction "is" arbitrary: t cum)
  case Nil
  then show ?case by simp
next
  case (Cons i "is")
  from scenario_body_py_returns[OF assms Cons.prems, of i]
  obtain y where y: "scenario_body_py k rate i t cum = Inr y" "is_float (py_turnover y)"
    "is_float (py_cumulative_cash y)" by blast
  from Cons.IH[OF y(2) is_float_convertible[OF y(3)]]
  obtain ys where "scenario_loop_py k rate is (py_turnover y) (py_cumulative_cash y) = Inr ys"
    "length ys = length is" by blast
  then show ?case by (simp add: bind_e_def y(1))
qed

lemma scenario_years_py_returns:
  assumes k: "loop_ready k" and rate: "is_float rate"
  shows "\<exists>ys. scenario_years_py k rate = Inr ys \<and> length ys = 3"
proof -
  from k have t: "is_float (yearly_breakeven_turnover_py k)"
    and i: "in_range (py_neg (investment_py k))"
    by (simp_all add: loop_ready_def in_range_neg)
  from scenario_loop_py_returns[OF k rate t in_range_convertible[OF i], of "[0, 1, 2]"]
  obtain ys where a: "scenario_loop_py k rate [0, 1, 2] (yearly_breakeven_turnover_py k)
      (py_neg (investment_py k)) = Inr ys" and b: "length ys = length [0, 1, 2 :: nat]" by blast
  from b have "length ys = 3" by simp
  with a show ?thesis unfolding scenario_years_py_def by blast
qed

lemma scenarios_py_floats: "\<forall>sc\<in>set scenarios_py. is_float (snd sc)"
  by (simp add: scenarios_py_def is_float_PyFloat)

lemma graph_loop_py_returns:
  assumes k: "loop_ready k"
  shows "\<forall>sc\<in>set scs. is_float (snd sc) \<Longrightarrow>
         \<exists>gs. graph_loop_py k scs = Inr gs \<and> length gs = length scs
              \<and> (\<forall>g\<in>set gs. length (profit_py g) = 3 \<and> length (cash_py g) = 3)"
proof (induction scs)
  case Nil
  then show ?case by simp
next
  case (Cons sc scs)
  from Cons.prems have r: "is_float (snd sc)" and rest: "\<forall>sc\<in>set scs. is_float (snd sc)"
    by simp_all
  from scenario_years_py_returns[OF k r]
  obtain ys where ys: "scenario_years_py k (snd sc) = Inr ys" "length ys = 3" by blast
  from Cons.IH[OF rest]
  obtain gs where gs: "graph_loop_py k scs = Inr gs" "length gs = length scs"
    "\<forall>g\<in>set gs. length (profit_py g) = 3 \<and> length (cash_py g) = 3" by blast
  show ?case by (simp add: bind_e_def ys gs)
qed

lemma table_body_py_returns:
  assumes k: "loop_ready k" and t: "is_float t" and cum: "convertible cum" and nfa: "convertible nfa"
  shows "\<exists>row. table_body_py k t i cum nfa = Inr row \<and> convertible (Cash_Position_py row)
             \<and> convertible (Net_Assets_py row)"
proof -
  note c = is_float_convertible
  from k have m: "is_float (margin_ratio_py k)" and s: "is_float (total_salary_cost_monthly_py k)"
    and r: "is_float (rent_monthly_py k)"
    and ct: "is_float (corp_tax_rate_py k)" and a: "is_float (annual_amortization_py k)"
    by (simp_all add: loop_ready_def)
  from py_op_float(2)[OF convertible_small_ints(2) c[OF m]] m
  obtain om where om: "py_sub (PyInt 1) (margin_ratio_py k) = Inr om" "is_float om" by blast
  from py_op_float(3)[OF c[OF t] c[OF om(2)]] t
  obtain cogs where cogs: "py_mul t om = Inr cogs" "is_float cogs" by blast
  from py_op_float(3)[OF c[OF t] c[OF m]] t
  obtain gm where gm: "py_mul t (margin_ratio_py k) = Inr gm" "is_float gm" by blast
  from py_op_float(3)[OF c[OF s] convertible_small_ints(3)] s
  obtain pers where pers: "py_mul (total_salary_cost_monthly_py k) (PyInt 12) = Inr pers"
    "is_float pers" by blast
  from py_op_float(3)[OF c[OF r] convertible_small_ints(3)] r
  obtain ext where ext: "py_mul (rent_monthly_py k) (PyInt 12) = Inr ext" "is_float ext" by blast
  from py_op_float(2)[OF c[OF gm(2)] c[OF pers(2)]] gm(2)
  obtain g1 where g1: "py_sub gm pers = Inr g1" "is_float g1" by blast
  from py_op_float(2)[OF c[OF g1(2)] c[OF ext(2)]] g1(2)
  obtain ebitda where ebitda: "py_sub g1 ext = Inr ebitda" "is_float ebitda" by blast
  from py_op_float(2)[OF c[OF ebitda(2)] c[OF a]] a
  obtain ebit where ebit: "py_sub ebitda (annual_amortization_py k) = Inr ebit" "is_float ebit"
    by blast
  from py_op_float(3)[OF c[OF ebit(2)] c[OF ct]] ct
  obtain et where et: "py_mul ebit (corp_tax_rate_py k) = Inr et" "is_float et" by blast
  define tax where "tax = (if py_pos ebit then et else PyInt 0)"
  have tax: "(if py_pos ebit then py_mul ebit (corp_tax_rate_py k) else Inr (PyInt 0)) = Inr tax"
    "convertible tax"
    using et by (simp_all add: tax_def c convertible_small_ints(1))
  from py_op_float(2)[OF c[OF ebit(2)] tax(2)] ebit(2)
  obtain np where np: "py_sub ebit tax = Inr np" "is_float np" by blast
  from py_op_float(1)[OF c[OF np(2)] c[OF a]] a
  obtain fl where fl: "py_add np (annual_amortization_py k) = Inr fl" "is_float fl" by blast
  from py_op_float(1)[OF cum c[OF fl(2)]] fl(2)
  obtain cc where cc: "py_add cum fl = Inr cc" "is_float cc" by blast
  from py_op_float(2)[OF nfa c[OF a]] a
  obtain n1 where n1: "py_sub nfa (annual_amortization_py k) = Inr n1" "is_float n1" by blast
  have "convertible (if py_negative n1 then PyInt 0 else n1)"
    using n1(2) by (simp add: c convertible_small_ints(1))
  then show ?thesis
    unfolding table_body_py_def
    by (simp add: bind_e_def om cogs gm pers ext g1 ebitda ebit tax(1) np fl cc n1 c)
qed

lemma table_loop_py_returns:
  assumes "loop_ready k" and "is_float t"
  shows "convertible cum \<Longrightarrow> convertible nfa \<Longrightarrow>
         \<exists>rows. table_loop_py k t is cum nfa = Inr rows \<and> length rows = length is"
proof (induction "is" arbitrary: cum nfa)
  case Nil
  then show ?case by simp
next
  case (Cons i "is")
  from table_body_py_returns[OF assms Cons.prems, of i]
  obtain row where row: "table_body_py k t i cum nfa = Inr row" "convertible (Cash_Position_py row)"
    "convertible (Net_Assets_py row)" by blast
  from Cons.IH[OF row(2) row(3)]
  obtain rows where "table_loop_py k t is (Cash_Position_py row) (Net_Assets_py row) = Inr rows"
    "length rows = length is" by blast
  then show ?case by (simp add: bind_e_def row(1))
qed

lemma table_rows_py_returns:
  assumes k: "loop_ready k"
  shows "\<exists>rows. table_rows_py k = Inr rows \<and> length rows = 3"
proof -
  from k have t: "is_float (yearly_breakeven_turnover_py k)"
    and i: "in_range (investment_py k)" and n: "in_range (py_neg (investment_py k))"
    by (simp_all add: loop_ready_def in_range_neg)
  from table_loop_py_returns[OF k t in_range_convertible[OF n] in_range_convertible[OF i],
      of "[0, 1, 2]"]
  obtain rows where a: "table_loop_py k (yearly_breakeven_turnover_py k) [0, 1, 2]
      (py_neg (investment_py k)) (investment_py k) = Inr rows"
    and b: "length rows = length [0, 1, 2 :: nat]" by blast
  from b have "length rows = 3" by simp
  with a show ?thesis unfolding table_rows_py_def by blast
qed

lemma result_py_of_costs:
  assumes k: "loop_ready k"
  shows "\<exists>gs rows. graph_loop_py k scenarios_py = Inr gs \<and> table_rows_py k = Inr rows
           \<and> length gs = 3 \<and> (\<forall>g\<in>set gs. length (profit_py g) = 3 \<and> length (cash_py g) = 3)
           \<and> length rows = 3"
proof -
  from graph_loop_py_returns[OF k scenarios_py_floats]
  obtain gs where gs: "graph_loop_py k scenarios_py = Inr gs" "length gs = length scenarios_py"
    "\<forall>g\<in>set gs. length (profit_py g) = 3 \<and> length (cash_py g) = 3" by blast
  from table_rows_py_returns[OF k]
  obtain rows where rows: "table_rows_py k = Inr rows" "length rows = 3" by blast
  have "length gs = 3" using gs(2) by (simp add: scenarios_py_def)
  with gs rows show ?thesis by blast
qed

lemma perform_calculations_py_on_returns:
  assumes s: "sectors industry = Some s" and z: "zones region = Some z"
    and nz: "\<not> is_zero (margin_py s)"
    and iv: "case inv0 of None \<Rightarrow> True | Some v \<Rightarrow> in_range v"
    and os: "in_range owner_salary" and rt: "in_range rent"
    and ne: "in_range nb_emp" and es: "in_range emp_salary"
  shows "\<exists>r. perform_calculations_py_on sectors zones region industry inv0 owner_salary rent
               nb_emp emp_salary = Inr r
            \<and> length (graph_data_py r) = 3
            \<and> (\<forall>g\<in>set (graph_data_py r). length (profit_py g) = 3 \<and> length (cash_py g) = 3)
            \<and> length (df_table_py r) = 3"
proof -
  from compute_costs_py_on_outcome[where sectors = sectors and industry = industry and zones = zones and region = region,
      OF s z iv os rt ne es] nz
  obtain k where k: "compute_costs_py_on sectors zones region industry inv0 owner_salary rent
      nb_emp emp_salary = Inr k" "loop_ready k" by auto
  from result_py_of_costs[OF k(2)]
  obtain gs rows where g: "graph_loop_py k scenarios_py = Inr gs" and t: "table_rows_py k = Inr rows"
    and l: "length gs = 3" "\<forall>g\<in>set gs. length (profit_py g) = 3 \<and> length (cash_py g) = 3"
      "length rows = 3" by blast
  have "perform_calculations_py_on sectors zones region industry inv0 owner_salary rent
      nb_emp emp_salary =
      Inr \<lparr>res_breakeven_turnover_py = yearly_breakeven_turnover_py k,
           res_corp_tax_rate_py = corp_tax_rate_py k, graph_data_py = gs, df_table_py = rows\<rparr>"
    by (simp add: perform_calculations_py_on_def bind_e_def k(1) g t)
  with l show ?thesis by simp
qed

lemma perform_calculations_py_on_zero_margin:
  assumes s: "sectors industry = Some s" and z: "zones region = Some z"
    and zero: "is_zero (margin_py s)"
    and iv: "case inv0 of None \<Rightarrow> True | Some v \<Rightarrow> in_range v"
    and os: "in_range owner_salary" and rt: "in_range rent"
    and ne: "in_range nb_emp" and es: "in_range emp_salary"
  shows "perform_calculations_py_on sectors zones region industry inv0 owner_salary rent
           nb_emp emp_salary = Inl ZeroDivisionError"
  using compute_costs_py_on_outcome[where sectors = sectors and industry = industry and zones = zones and region = region,
      OF s z iv os rt ne es] zero
  by (simp add: perform_calculations_py_on_def bind_e_def)

subsection \<open>The tables in doubles\<close>

lemma float_literal_values:
  "float_literal 40 100 = Finite 7205759403792794 (- 54)"
  "float_literal 95 100 = Finite 8556839292003942 (- 53)"
  "float_literal 50 100 = Finite 4503599627370496 (- 53)"
  by code_simp+

lemma SECTOR_RATIOS_py_margin_nonzero:
  "SECTOR_RATIOS_py industry = Some s \<Longrightarrow> \<not> is_zero (margin_py s)"
  by (auto simp: SECTOR_RATIOS_py_def float_literal_values is_zero_def split: if_splits)

lemma SECTOR_RATIOS_py_retail:
  "SECTOR_RATIOS_py ''retail'' =
     Some \<lparr>margin_py = float_literal 40 100, stock_need_py = float_literal 15 100,
           label_py = ''Retail (Store)''\<rparr>"
  by (simp add: SECTOR_RATIOS_py_def)

lemma TAX_ZONES_py_us:
  "TAX_ZONES_py ''us'' =
     Some \<lparr>zone_label_py = ''North America (USA/Canada)'',
           salary_tax_py = float_literal 25 100, corp_tax_py = float_literal 21 100\<rparr>"
  by (simp add: TAX_ZONES_py_def)

lemma in_range_examples:
  "in_range (PyInt 2000)" "in_range (PyInt 3000)" "in_range (PyInt 1)" "in_range (PyInt (- 1))"
  "in_range (PyInt 20000)" "in_range (PyInt (- 20000))" "in_range (PyInt 0)"
  by (simp_all add: in_range_def)

subsection \<open>Concrete runs in doubles\<close>

text \<open>Investment 19999 with the other default inputs of the form: the costs, the three
  scenarios, the table, and the returned tuple.\<close>

lemma py_costs_19999:
  "compute_costs_py ''us'' ''retail'' (Some (PyInt 19999)) (PyInt 2000) (PyInt 3000) (PyInt 1) (PyInt 2000) =
    Inr \<lparr>investment_py = PyInt 19999, margin_ratio_py = PyFloat (Finite 7205759403792794
      (- 54)), salary_tax_rate_py = PyFloat (Finite 4503599627370496 (- 54)), corp_tax_rate_py
      = PyFloat (Finite 7566047373982433 (- 55)), salary_multiplier_py = PyFloat (Finite
      5629499534213120 (- 52)), annual_amortization_py = PyFloat (Finite 8795653217556890 (-
      41)), total_salary_cost_monthly_py = PyFloat (Finite 5497558138880000 (- 40)),
      rent_monthly_py = PyFloat (Finite 7916483719987200 (- 41)), total_yearly_fixed_costs_py =
      PyFloat (Finite 7366714162203853 (- 36)), yearly_breakeven_turnover_py = PyFloat (Finite
      4604196351377408 (- 34))\<rparr>"
  by code_simp

lemma py_graph_19999:
  "graph_loop_py
    (\<lparr>investment_py = PyInt 19999, margin_ratio_py = PyFloat (Finite 7205759403792794 (-
      54)), salary_tax_rate_py = PyFloat (Finite 4503599627370496 (- 54)), corp_tax_rate_py =
      PyFloat (Finite 7566047373982433 (- 55)), salary_multiplier_py = PyFloat (Finite
      5629499534213120 (- 52)), annual_amortization_py = PyFloat (Finite 8795653217556890 (-
      41)), total_salary_cost_monthly_py = PyFloat (Finite 5497558138880000 (- 40)),
      rent_monthly_py = PyFloat (Finite 7916483719987200 (- 41)), total_yearly_fixed_costs_py =
      PyFloat (Finite 7366714162203853 (- 36)), yearly_breakeven_turnover_py = PyFloat (Finite
      4604196351377408 (- 34))\<rparr>)
    scenarios_py =
    Inr [\<lparr>name_py = ''Stagnation'', profit_py = [PyFloat (Finite 0 (- 1074)), PyFloat
      (Finite 0 (- 1074)), PyFloat (Finite 0 (- 1074))], cash_py = [PyFloat (Finite (-
      8795653217556890) (- 39)), PyFloat (Finite (- 6596739913167668) (- 39)), PyFloat (Finite
      (- 8795653217556891) (- 40))]\<rparr>, \<lparr>name_py = ''Growth (+5%)'', profit_py =
      [PyFloat (Finite 0 (- 1074)), PyFloat (Finite 4655763350512852 (- 40)), PyFloat (Finite
      4772157434275663 (- 39))], cash_py = [PyFloat (Finite (- 8795653217556890) (- 39)),
      PyFloat (Finite (- 8537716475822484) (- 40)), PyFloat (Finite 5404425001507288 (-
      40))]\<rparr>, \<lparr>name_py = ''Recession (-5%)'', profit_py = [PyFloat (Finite 0 (-
      1074)), PyFloat (Finite (- 5893371329763088) (- 40)), PyFloat (Finite (-
      5746037046519008) (- 39))], cash_py = [PyFloat (Finite (- 8795653217556890) (- 39)),
      PyFloat (Finite (- 4771712789024606) (- 38)), PyFloat (Finite (- 6545274660089499) (-
      38))]\<rparr>]"
  by code_simp

lemma py_table_19999:
  "table_rows_py
    (\<lparr>investment_py = PyInt 19999, margin_ratio_py = PyFloat (Finite 7205759403792794 (-
      54)), salary_tax_rate_py = PyFloat (Finite 4503599627370496 (- 54)), corp_tax_rate_py =
      PyFloat (Finite 7566047373982433 (- 55)), salary_multiplier_py = PyFloat (Finite
      5629499534213120 (- 52)), annual_amortization_py = PyFloat (Finite 8795653217556890 (-
      41)), total_salary_cost_monthly_py = PyFloat (Finite 5497558138880000 (- 40)),
      rent_monthly_py = PyFloat (Finite 7916483719987200 (- 41)), total_yearly_fixed_costs_py =
      PyFloat (Finite 7366714162203853 (- 36)), yearly_breakeven_turnover_py = PyFloat (Finite
      4604196351377408 (- 34))\<rparr>) =
    Inr [\<lparr>Year_py = ''Year 1'', Turnover_py = PyFloat (Finite 4604196351377408 (- 34)),
      COGS_py = PyFloat (Finite (- 5525035621652889) (- 35)), Gross_Margin_py = PyFloat (Finite
      7366714162203853 (- 36)), Personnel_py = PyFloat (Finite (- 8246337208320000) (- 37)),
      Rent_Charges_py = PyFloat (Finite (- 5937362789990400) (- 37)), EBITDA_py = PyFloat
      (Finite 8795653217556896 (- 41)), Amortization_py = PyFloat (Finite (- 8795653217556890)
      (- 41)), EBIT_py = PyFloat (Finite 6755399441055744 (- 91)), Tax_py = PyFloat (Finite (-
      5674535530486825) (- 93)), Net_Profit_py = PyFloat (Finite 5336765558434038 (- 91)),
      Cash_Position_py = PyFloat (Finite (- 8795653217556888) (- 39)), Net_Assets_py = PyFloat
      (Finite 8795653217556890 (- 39))\<rparr>, \<lparr>Year_py = ''Year 2'', Turnover_py =
      PyFloat (Finite 4604196351377408 (- 34)), COGS_py = PyFloat (Finite (- 5525035621652889)
      (- 35)), Gross_Margin_py = PyFloat (Finite 7366714162203853 (- 36)), Personnel_py =
      PyFloat (Finite (- 8246337208320000) (- 37)), Rent_Charges_py = PyFloat (Finite (-
      5937362789990400) (- 37)), EBITDA_py = PyFloat (Finite 8795653217556896 (- 41)),
      Amortization_py = PyFloat (Finite (- 8795653217556890) (- 41)), EBIT_py = PyFloat (Finite
      6755399441055744 (- 91)), Tax_py = PyFloat (Finite (- 5674535530486825) (- 93)),
      Net_Profit_py = PyFloat (Finite 5336765558434038 (- 91)), Cash_Position_py = PyFloat
      (Finite (- 6596739913167664) (- 39)), Net_Assets_py = PyFloat (Finite 6596739913167668 (-
      39))\<rparr>, \<lparr>Year_py = ''Year 3'', Turnover_py = PyFloat (Finite
      4604196351377408 (- 34)), COGS_py = PyFloat (Finite (- 5525035621652889) (- 35)),
      Gross_Margin_py = PyFloat (Finite 7366714162203853 (- 36)), Personnel_py = PyFloat
      (Finite (- 8246337208320000) (- 37)), Rent_Charges_py = PyFloat (Finite (-
      5937362789990400) (- 37)), EBITDA_py = PyFloat (Finite 8795653217556896 (- 41)),
      Amortization_py = PyFloat (Finite (- 8795653217556890) (- 41)), EBIT_py = PyFloat (Finite
      6755399441055744 (- 91)), Tax_py = PyFloat (Finite (- 5674535530486825) (- 93)),
      Net_Profit_py = PyFloat (Finite 5336765558434038 (- 91)), Cash_Position_py = PyFloat
      (Finite (- 8795653217556880) (- 40)), Net_Assets_py = PyFloat (Finite 8795653217556891 (-
      40))\<rparr>]"
  by code_simp

lemma py_run_19999:
  "perform_calculations_py ''us'' ''retail'' (Some (PyInt 19999)) (PyInt 2000) (PyInt 3000) (PyInt 1) (PyInt 2000) =
    Inr \<lparr>res_breakeven_turnover_py = PyFloat (Finite 4604196351377408 (- 34)),
      res_corp_tax_rate_py = PyFloat (Finite 7566047373982433 (- 55)), graph_data_py =
      [\<lparr>name_py = ''Stagnation'', profit_py = [PyFloat (Finite 0 (- 1074)), PyFloat
      (Finite 0 (- 1074)), PyFloat (Finite 0 (- 1074))], cash_py = [PyFloat (Finite (-
      8795653217556890) (- 39)), PyFloat (Finite (- 6596739913167668) (- 39)), PyFloat (Finite
      (- 8795653217556891) (- 40))]\<rparr>, \<lparr>name_py = ''Growth (+5%)'', profit_py =
      [PyFloat (Finite 0 (- 1074)), PyFloat (Finite 4655763350512852 (- 40)), PyFloat (Finite
      4772157434275663 (- 39))], cash_py = [PyFloat (Finite (- 8795653217556890) (- 39)),
      PyFloat (Finite (- 8537716475822484) (- 40)), PyFloat (Finite 5404425001507288 (-
      40))]\<rparr>, \<lparr>name_py = ''Recession (-5%)'', profit_py = [PyFloat (Finite 0 (-
      1074)), PyFloat (Finite (- 5893371329763088) (- 40)), PyFloat (Finite (-
      5746037046519008) (- 39))], cash_py = [PyFloat (Finite (- 8795653217556890) (- 39)),
      PyFloat (Finite (- 4771712789024606) (- 38)), PyFloat (Finite (- 6545274660089499) (-
      38))]\<rparr>], df_table_py = [\<lparr>Year_py = ''Year 1'', Turnover_py = PyFloat
      (Finite 4604196351377408 (- 34)), COGS_py = PyFloat (Finite (- 5525035621652889) (- 35)),
      Gross_Margin_py = PyFloat (Finite 7366714162203853 (- 36)), Personnel_py = PyFloat
      (Finite (- 8246337208320000) (- 37)), Rent_Charges_py = PyFloat (Finite (-
      5937362789990400) (- 37)), EBITDA_py = PyFloat (Finite 8795653217556896 (- 41)),
      Amortization_py = PyFloat (Finite (- 8795653217556890) (- 41)), EBIT_py = PyFloat (Finite
      6755399441055744 (- 91)), Tax_py = PyFloat (Finite (- 5674535530486825) (- 93)),
      Net_Profit_py = PyFloat (Finite 5336765558434038 (- 91)), Cash_Position_py = PyFloat
      (Finite (- 8795653217556888) (- 39)), Net_Assets_py = PyFloat (Finite 8795653217556890 (-
      39))\<rparr>, \<lparr>Year_py = ''Year 2'', Turnover_py = PyFloat (Finite
      4604196351377408 (- 34)), COGS_py = PyFloat (Finite (- 5525035621652889) (- 35)),
      Gross_Margin_py = PyFloat (Finite 7366714162203853 (- 36)), Personnel_py = PyFloat
      (Finite (- 8246337208320000) (- 37)), Rent_Charges_py = PyFloat (Finite (-
      5937362789990400) (- 37)), EBITDA_py = PyFloat (Finite 8795653217556896 (- 41)),
      Amortization_py = PyFloat (Finite (- 8795653217556890) (- 41)), EBIT_py = PyFloat (Finite
      6755399441055744 (- 91)), Tax_py = PyFloat (Finite (- 5674535530486825) (- 93)),
      Net_Profit_py = PyFloat (Finite 5336765558434038 (- 91)), Cash_Position_py = PyFloat
      (Finite (- 6596739913167664) (- 39)), Net_Assets_py = PyFloat (Finite 6596739913167668 (-
      39))\<rparr>, \<lparr>Year_py = ''Year 3'', Turnover_py = PyFloat (Finite
      4604196351377408 (- 34)), COGS_py = PyFloat (Finite (- 5525035621652889) (- 35)),
      Gross_Margin_py = PyFloat (Finite 7366714162203853 (- 36)), Personnel_py = PyFloat
      (Finite (- 8246337208320000) (- 37)), Rent_Charges_py = PyFloat (Finite (-
      5937362789990400) (- 37)), EBITDA_py = PyFloat (Finite 8795653217556896 (- 41)),
      Amortization_py = PyFloat (Finite (- 8795653217556890) (- 41)), EBIT_py = PyFloat (Finite
      6755399441055744 (- 91)), Tax_py = PyFloat (Finite (- 5674535530486825) (- 93)),
      Net_Profit_py = PyFloat (Finite 5336765558434038 (- 91)), Cash_Position_py = PyFloat
      (Finite (- 8795653217556880) (- 40)), Net_Assets_py = PyFloat (Finite 8795653217556891 (-
      40))\<rparr>]\<rparr>"
  by (simp add: perform_calculations_py_def perform_calculations_py_on_def bind_e_def
      py_costs_19999[unfolded compute_costs_py_def] py_graph_19999 py_table_19999)

text \<open>Region \<^verbatim>\<open>afr\<close>, three employees at 4000.\<close>

lemma py_costs_afr:
  "compute_costs_py ''afr'' ''retail'' (Some (PyInt 20000)) (PyInt 2000) (PyInt 3000) (PyInt 3) (PyInt 4000) =
    Inr \<lparr>investment_py = PyInt 20000, margin_ratio_py = PyFloat (Finite 7205759403792794
      (- 54)), salary_tax_rate_py = PyFloat (Finite 5404319552844595 (- 55)), corp_tax_rate_py
      = PyFloat (Finite 5404319552844595 (- 54)), salary_multiplier_py = PyFloat (Finite
      5179139571476070 (- 52)), annual_amortization_py = PyFloat (Finite 8796093022208000 (-
      41)), total_salary_cost_monthly_py = PyFloat (Finite 8851068603596799 (- 39)),
      rent_monthly_py = PyFloat (Finite 7916483719987200 (- 41)), total_yearly_fixed_costs_py =
      PyFloat (Finite 8260081103667200 (- 35)), yearly_breakeven_turnover_py = PyFloat (Finite
      5162550689792000 (- 33))\<rparr>"
  by code_simp

lemma py_graph_afr:
  "graph_loop_py
    (\<lparr>investment_py = PyInt 20000, margin_ratio_py = PyFloat (Finite 7205759403792794 (-
      54)), salary_tax_rate_py = PyFloat (Finite 5404319552844595 (- 55)), corp_tax_rate_py =
      PyFloat (Finite 5404319552844595 (- 54)), salary_multiplier_py = PyFloat (Finite
      5179139571476070 (- 52)), annual_amortization_py = PyFloat (Finite 8796093022208000 (-
      41)), total_salary_cost_monthly_py = PyFloat (Finite 8851068603596799 (- 39)),
      rent_monthly_py = PyFloat (Finite 7916483719987200 (- 41)), total_yearly_fixed_costs_py =
      PyFloat (Finite 8260081103667200 (- 35)), yearly_breakeven_turnover_py = PyFloat (Finite
      5162550689792000 (- 33))\<rparr>)
    scenarios_py =
    Inr [\<lparr>name_py = ''Stagnation'', profit_py = [PyFloat (Finite 0 (- 1074)), PyFloat
      (Finite 0 (- 1074)), PyFloat (Finite 0 (- 1074))], cash_py = [PyFloat (Finite (-
      8796093022208000) (- 39)), PyFloat (Finite (- 6597069766656000) (- 39)), PyFloat (Finite
      (- 8796093022208000) (- 40))]\<rparr>, \<lparr>name_py = ''Growth (+5%)'', profit_py =
      [PyFloat (Finite 0 (- 1074)), PyFloat (Finite 4625645418053632 (- 39)), PyFloat (Finite
      4741286553504973 (- 38))], cash_py = [PyFloat (Finite (- 8796093022208000) (- 39)),
      PyFloat (Finite (- 7885697394409472) (- 41)), PyFloat (Finite 4855086006979789 (-
      38))]\<rparr>, \<lparr>name_py = ''Recession (-5%)'', profit_py = [PyFloat (Finite 0 (-
      1074)), PyFloat (Finite (- 6608064882933760) (- 39)), PyFloat (Finite (-
      6442863260860416) (- 38))], cash_py = [PyFloat (Finite (- 8796093022208000) (- 39)),
      PyFloat (Finite (- 6602567324794880) (- 38)), PyFloat (Finite (- 5972959478939648) (-
      37))]\<rparr>]"
  by code_simp

lemma py_table_afr:
  "table_rows_py
    (\<lparr>investment_py = PyInt 20000, margin_ratio_py = PyFloat (Finite 7205759403792794 (-
      54)), salary_tax_rate_py = PyFloat (Finite 5404319552844595 (- 55)), corp_tax_rate_py =
      PyFloat (Finite 5404319552844595 (- 54)), salary_multiplier_py = PyFloat (Finite
      5179139571476070 (- 52)), annual_amortization_py = PyFloat (Finite 8796093022208000 (-
      41)), total_salary_cost_monthly_py = PyFloat (Finite 8851068603596799 (- 39)),
      rent_monthly_py = PyFloat (Finite 7916483719987200 (- 41)), total_yearly_fixed_costs_py =
      PyFloat (Finite 8260081103667200 (- 35)), yearly_breakeven_turnover_py = PyFloat (Finite
      5162550689792000 (- 33))\<rparr>) =
    Inr [\<lparr>Year_py = ''Year 1'', Turnover_py = PyFloat (Finite 5162550689792000 (- 33)),
      COGS_py = PyFloat (Finite (- 6195060827750400) (- 34)), Gross_Margin_py = PyFloat (Finite
      8260081103667200 (- 35)), Personnel_py = PyFloat (Finite (- 6638301452697599) (- 35)),
      Rent_Charges_py = PyFloat (Finite (- 5937362789990400) (- 37)), EBITDA_py = PyFloat
      (Finite 8796093022208064 (- 41)), Amortization_py = PyFloat (Finite (- 8796093022208000)
      (- 41)), EBIT_py = PyFloat (Finite 4503599627370496 (- 87)), Tax_py = PyFloat (Finite (-
      5404319552844595) (- 89)), Net_Profit_py = PyFloat (Finite 6305039478318694 (- 88)),
      Cash_Position_py = PyFloat (Finite (- 8796093022207989) (- 39)), Net_Assets_py = PyFloat
      (Finite 8796093022208000 (- 39))\<rparr>, \<lparr>Year_py = ''Year 2'', Turnover_py =
      PyFloat (Finite 5162550689792000 (- 33)), COGS_py = PyFloat (Finite (- 6195060827750400)
      (- 34)), Gross_Margin_py = PyFloat (Finite 8260081103667200 (- 35)), Personnel_py =
      PyFloat (Finite (- 6638301452697599) (- 35)), Rent_Charges_py = PyFloat (Finite (-
      5937362789990400) (- 37)), EBITDA_py = PyFloat (Finite 8796093022208064 (- 41)),
      Amortization_py = PyFloat (Finite (- 8796093022208000) (- 41)), EBIT_py = PyFloat (Finite
      4503599627370496 (- 87)), Tax_py = PyFloat (Finite (- 5404319552844595) (- 89)),
      Net_Profit_py = PyFloat (Finite 6305039478318694 (- 88)), Cash_Position_py = PyFloat
      (Finite (- 6597069766655978) (- 39)), Net_Assets_py = PyFloat (Finite 6597069766656000 (-
      39))\<rparr>, \<lparr>Year_py = ''Year 3'', Turnover_py = PyFloat (Finite
      5162550689792000 (- 33)), COGS_py = PyFloat (Finite (- 6195060827750400) (- 34)),
      Gross_Margin_py = PyFloat (Finite 8260081103667200 (- 35)), Personnel_py = PyFloat
      (Finite (- 6638301452697599) (- 35)), Rent_Charges_py = PyFloat (Finite (-
      5937362789990400) (- 37)), EBITDA_py = PyFloat (Finite 8796093022208064 (- 41)),
      Amortization_py = PyFloat (Finite (- 8796093022208000) (- 41)), EBIT_py = PyFloat (Finite
      4503599627370496 (- 87)), Tax_py = PyFloat (Finite (- 5404319552844595) (- 89)),
      Net_Profit_py = PyFloat (Finite 6305039478318694 (- 88)), Cash_Position_py = PyFloat
      (Finite (- 8796093022207934) (- 40)), Net_Assets_py = PyFloat (Finite 8796093022208000 (-
      40))\<rparr>]"
  by code_simp

lemma py_run_afr:
  "perform_calculations_py ''afr'' ''retail'' (Some (PyInt 20000)) (PyInt 2000) (PyInt 3000) (PyInt 3) (PyInt 4000) =
    Inr \<lparr>res_breakeven_turnover_py = PyFloat (Finite 5162550689792000 (- 33)),
      res_corp_tax_rate_py = PyFloat (Finite 5404319552844595 (- 54)), graph_data_py =
      [\<lparr>name_py = ''Stagnation'', profit_py = [PyFloat (Finite 0 (- 1074)), PyFloat
      (Finite 0 (- 1074)), PyFloat (Finite 0 (- 1074))], cash_py = [PyFloat (Finite (-
      8796093022208000) (- 39)), PyFloat (Finite (- 6597069766656000) (- 39)), PyFloat (Finite
      (- 8796093022208000) (- 40))]\<rparr>, \<lparr>name_py = ''Growth (+5%)'', profit_py =
      [PyFloat (Finite 0 (- 1074)), PyFloat (Finite 4625645418053632 (- 39)), PyFloat (Finite
      4741286553504973 (- 38))], cash_py = [PyFloat (Finite (- 8796093022208000) (- 39)),
      PyFloat (Finite (- 7885697394409472) (- 41)), PyFloat (Finite 4855086006979789 (-
      38))]\<rparr>, \<lparr>name_py = ''Recession (-5%)'', profit_py = [PyFloat (Finite 0 (-
      1074)), PyFloat (Finite (- 6608064882933760) (- 39)), PyFloat (Finite (-
      6442863260860416) (- 38))], cash_py = [PyFloat (Finite (- 8796093022208000) (- 39)),
      PyFloat (Finite (- 6602567324794880) (- 38)), PyFloat (Finite (- 5972959478939648) (-
      37))]\<rparr>], df_table_py = [\<lparr>Year_py = ''Year 1'', Turnover_py = PyFloat
      (Finite 5162550689792000 (- 33)), COGS_py = PyFloat (Finite (- 6195060827750400) (- 34)),
      Gross_Margin_py = PyFloat (Finite 8260081103667200 (- 35)), Personnel_py = PyFloat
      (Finite (- 6638301452697599) (- 35)), Rent_Charges_py = PyFloat (Finite (-
      5937362789990400) (- 37)), EBITDA_py = PyFloat (Finite 8796093022208064 (- 41)),
      Amortization_py = PyFloat (Finite (- 8796093022208000) (- 41)), EBIT_py = PyFloat (Finite
      4503599627370496 (- 87)), Tax_py = PyFloat (Finite (- 5404319552844595) (- 89)),
      Net_Profit_py = PyFloat (Finite 6305039478318694 (- 88)), Cash_Position_py = PyFloat
      (Finite (- 8796093022207989) (- 39)), Net_Assets_py = PyFloat (Finite 8796093022208000 (-
      39))\<rparr>, \<lparr>Year_py = ''Year 2'', Turnover_py = PyFloat (Finite
      5162550689792000 (- 33)), COGS_py = PyFloat (Finite (- 6195060827750400) (- 34)),
      Gross_Margin_py = PyFloat (Finite 8260081103667200 (- 35)), Personnel_py = PyFloat
      (Finite (- 6638301452697599) (- 35)), Rent_Charges_py = PyFloat (Finite (-
      5937362789990400) (- 37)), EBITDA_py = PyFloat (Finite 8796093022208064 (- 41)),
      Amortization_py = PyFloat (Finite (- 8796093022208000) (- 41)), EBIT_py = PyFloat (Finite
      4503599627370496 (- 87)), Tax_py = PyFloat (Finite (- 5404319552844595) (- 89)),
      Net_Profit_py = PyFloat (Finite 6305039478318694 (- 88)), Cash_Position_py = PyFloat
      (Finite (- 6597069766655978) (- 39)), Net_Assets_py = PyFloat (Finite 6597069766656000 (-
      39))\<rparr>, \<lparr>Year_py = ''Year 3'', Turnover_py = PyFloat (Finite
      5162550689792000 (- 33)), COGS_py = PyFloat (Finite (- 6195060827750400) (- 34)),
      Gross_Margin_py = PyFloat (Finite 8260081103667200 (- 35)), Personnel_py = PyFloat
      (Finite (- 6638301452697599) (- 35)), Rent_Charges_py = PyFloat (Finite (-
      5937362789990400) (- 37)), EBITDA_py = PyFloat (Finite 8796093022208064 (- 41)),
      Amortization_py = PyFloat (Finite (- 8796093022208000) (- 41)), EBIT_py = PyFloat (Finite
      4503599627370496 (- 87)), Tax_py = PyFloat (Finite (- 5404319552844595) (- 89)),
      Net_Profit_py = PyFloat (Finite 6305039478318694 (- 88)), Cash_Position_py = PyFloat
      (Finite (- 8796093022207934) (- 40)), Net_Assets_py = PyFloat (Finite 8796093022208000 (-
      40))\<rparr>]\<rparr>"
  by (simp add: perform_calculations_py_def perform_calculations_py_on_def bind_e_def
      py_costs_afr[unfolded compute_costs_py_def] py_graph_afr py_table_afr)

text \<open>An int investment beyond the doubles: line 147 raises.\<close>

lemma py_overflow_example:
  "perform_calculations_py ''us'' ''retail'' (Some (PyInt (10 ^ 400))) (PyInt 2000) (PyInt 3000)
     (PyInt 1) (PyInt 2000) = Inl OverflowError"
  by code_simp

section \<open>The claims\<close>

text \<open>C1: for region \<^verbatim>\<open>us\<close>, industry \<^verbatim>\<open>retail\<close>, investment 20000, owner salary 2000,
  rent 3000, one employee at 2000, the engine computes the rates 0.25, 0.21 and 0.40, annual
  amortization 4000, monthly salary cost 5000, monthly rent 3600, yearly fixed costs 107200 and
  the break-even turnover 107200 / 0.40 = 268000, which is also the first component of the
  returned tuple.\<close>

theorem us_retail_example:
  "compute_costs ''us'' ''retail'' (Some 20000) 2000 3000 1 2000 =
     Inr \<lparr>investment = 20000, margin_ratio = 0.40, salary_tax_rate = 0.25, corp_tax_rate = 0.21,
          salary_multiplier = 1.25, annual_amortization = 4000,
          total_salary_cost_monthly = 5000, rent_monthly = 3600,
          total_yearly_fixed_costs = 107200, yearly_breakeven_turnover = 268000\<rparr>
   \<and> map_sum id res_breakeven_turnover
        (perform_calculations ''us'' ''retail'' (Some 20000) 2000 3000 1 2000) = Inr 268000
   \<and> (107200 :: real) / 0.40 = 268000"
  by (simp add: us_retail_costs us_retail_result result_of_def)

text \<open>C2, in exact arithmetic: for every input on which the engine returns, the Stagnation
  scenario is the first entry of \<^verbatim>\<open>graph_data\<close>, its Year-1 net profit and cumulative cash
  are the Year-1 \<^verbatim>\<open>Net Profit\<close> and \<^verbatim>\<open>Cash Position\<close> of the table, and the Year-1 EBIT is
  0 in the scenario loop and in the table.\<close>

theorem stagnation_year1_coherent:
  assumes k: "compute_costs region industry inv0 owner_salary rent nb_emp emp_salary = Inr k"
    and r: "perform_calculations region industry inv0 owner_salary rent nb_emp emp_salary = Inr r"
  shows "name (graph_data r ! 0) = ''Stagnation''
       \<and> profit (graph_data r ! 0) ! 0 = Net_Profit (df_table r ! 0)
       \<and> cash (graph_data r ! 0) ! 0 = Cash_Position (df_table r ! 0)
       \<and> sy_ebit (scenario_years k 1 ! 0) = 0
       \<and> EBIT (df_table r ! 0) = 0"
proof -
  have rk: "r = result_of k"
    using r perform_calculations_of_costs[OF k] by simp
  note be = breakeven_times_margin[OF k[unfolded compute_costs_def]]
  note fx = compute_costs_on_Inr(8)[OF k[unfolded compute_costs_def]]
  have g: "graph_data r ! 0 =
      \<lparr>name = ''Stagnation'', profit = map sy_net_profit (scenario_years k 1),
       cash = map sy_cumulative_cash (scenario_years k 1)\<rparr>"
    by (simp add: rk result_of_def scenarios_def graph_entry_of_def Let_def)
  have t: "df_table r = table_rows k"
    by (simp add: rk result_of_def)
  have p: "profit (graph_data r ! 0) = [0, 0, 0]"
    unfolding g by (simp add: stagnation_years(2)[OF be])
  have c: "cash (graph_data r ! 0) = map Cash_Position (df_table r)"
    unfolding g t by (simp add: stagnation_years(3)[OF be] table_rows_at_breakeven(4)[OF be fx])
  have l: "length (df_table r) = 3"
    unfolding t by (simp add: table_rows_unfold Let_def)
  have n: "map Net_Profit (df_table r) = [0, 0, 0]"
    unfolding t by (rule table_rows_at_breakeven(3)[OF be fx])
  have e: "map EBIT (df_table r) = [0, 0, 0]"
    unfolding t by (rule table_rows_at_breakeven(1)[OF be fx])
  have ly: "length (scenario_years k 1) = 3"
    by (simp add: scenario_years_unfold Let_def)
  have n0: "Net_Profit (df_table r ! 0) = 0"
    using arg_cong[OF n, of "\<lambda>xs. xs ! 0"] l by simp
  have e0: "EBIT (df_table r ! 0) = 0"
    using arg_cong[OF e, of "\<lambda>xs. xs ! 0"] l by simp
  have s0: "sy_ebit (scenario_years k 1 ! 0) = 0"
    using arg_cong[OF stagnation_years(1)[OF be], of "\<lambda>xs. xs ! 0"] ly by simp
  have c0: "cash (graph_data r ! 0) ! 0 = Cash_Position (df_table r ! 0)"
    using l by (simp add: c)
  have nm: "name (graph_data r ! 0) = ''Stagnation''"
    unfolding g by simp
  show ?thesis
    using n0 e0 c0 nm s0 by (simp add: p)
qed

text \<open>The hypotheses hold at the default inputs of the form.\<close>

theorem stagnation_year1_coherent_witness:
  "\<exists>k r. compute_costs ''us'' ''retail'' (Some 20000) 2000 3000 1 2000 = Inr k
      \<and> perform_calculations ''us'' ''retail'' (Some 20000) 2000 3000 1 2000 = Inr r
      \<and> name (graph_data r ! 0) = ''Stagnation''
      \<and> profit (graph_data r ! 0) ! 0 = Net_Profit (df_table r ! 0)
      \<and> cash (graph_data r ! 0) ! 0 = Cash_Position (df_table r ! 0)
      \<and> sy_ebit (scenario_years k 1 ! 0) = 0
      \<and> EBIT (df_table r ! 0) = 0"
  using stagnation_year1_coherent[OF us_retail_costs us_retail_result] us_retail_costs
    us_retail_result by blast

text \<open>In doubles the two equalities fail: the scenario loop subtracts the fixed costs in
  one step (line 172), the table in three (lines 196 and 197), and the roundings differ. With
  investment 19999 the Year-1 net profit is 0.0 in the scenario and about 2.155e-12 in the
  table, the Year-1 cash -15999.2 and -15999.199999999997.\<close>

theorem stagnation_year1_differs_in_doubles:
  "map_sum id (hd \<circ> profit_py \<circ> hd \<circ> graph_data_py)
     (perform_calculations_py ''us'' ''retail'' (Some (PyInt 19999)) (PyInt 2000) (PyInt 3000)
        (PyInt 1) (PyInt 2000)) = Inr (PyFloat (Finite 0 (- 1074)))
   \<and> map_sum id (Net_Profit_py \<circ> hd \<circ> df_table_py)
     (perform_calculations_py ''us'' ''retail'' (Some (PyInt 19999)) (PyInt 2000) (PyInt 3000)
        (PyInt 1) (PyInt 2000)) = Inr (PyFloat (Finite 5336765558434038 (- 91)))
   \<and> \<not> py_eq (PyFloat (Finite 0 (- 1074))) (PyFloat (Finite 5336765558434038 (- 91)))
   \<and> map_sum id (hd \<circ> cash_py \<circ> hd \<circ> graph_data_py)
     (perform_calculations_py ''us'' ''retail'' (Some (PyInt 19999)) (PyInt 2000) (PyInt 3000)
        (PyInt 1) (PyInt 2000)) = Inr (PyFloat (Finite (- 8795653217556890) (- 39)))
   \<and> map_sum id (Cash_Position_py \<circ> hd \<circ> df_table_py)
     (perform_calculations_py ''us'' ''retail'' (Some (PyInt 19999)) (PyInt 2000) (PyInt 3000)
        (PyInt 1) (PyInt 2000)) = Inr (PyFloat (Finite (- 8795653217556888) (- 39)))
   \<and> \<not> py_eq (PyFloat (Finite (- 8795653217556890) (- 39)))
            (PyFloat (Finite (- 8795653217556888) (- 39)))"
  by (simp add: py_run_19999 py_eq_def)

text \<open>C3: in every year of a scenario (for any growth rate, so for the three of
  \<open>scenarios\<close>) and in every row of the table, an EBIT that is not positive gives tax 0, and
  the tax is never negative (the column \<^verbatim>\<open>Tax\<close> holds the negated tax).\<close>

theorem tax_floor:
  assumes k: "compute_costs region industry inv0 owner_salary rent nb_emp emp_salary = Inr k"
    and r: "perform_calculations region industry inv0 owner_salary rent nb_emp emp_salary = Inr r"
  shows "(\<forall>y\<in>set (scenario_years k rate). (sy_ebit y \<le> 0 \<longrightarrow> sy_tax y = 0) \<and> 0 \<le> sy_tax y)
       \<and> (\<forall>row\<in>set (df_table r). (EBIT row \<le> 0 \<longrightarrow> Tax row = 0) \<and> Tax row \<le> 0)"
proof -
  note c = compute_costs_rates(2)[OF k]
  have "r = result_of k"
    using r perform_calculations_of_costs[OF k] by simp
  then have t: "df_table r = table_rows k"
    by (simp add: result_of_def)
  have a: "\<forall>y\<in>set (scenario_years k rate). (sy_ebit y \<le> 0 \<longrightarrow> sy_tax y = 0) \<and> 0 \<le> sy_tax y"
    unfolding scenario_years_def
    by (rule scenario_loop_all) (simp add: scenario_body_tax c)
  have b: "\<forall>row\<in>set (df_table r). (EBIT row \<le> 0 \<longrightarrow> Tax row = 0) \<and> Tax row \<le> 0"
    unfolding t table_rows_def
    by (rule table_loop_all) (simp add: table_body_tax c)
  from a b show ?thesis ..
qed

text \<open>At the default inputs the first year of Stagnation and the first row of the table have
  EBIT 0, hence tax 0.\<close>

theorem tax_floor_witness:
  "\<exists>k r. compute_costs ''us'' ''retail'' (Some 20000) 2000 3000 1 2000 = Inr k
      \<and> perform_calculations ''us'' ''retail'' (Some 20000) 2000 3000 1 2000 = Inr r
      \<and> sy_ebit (scenario_years k 1 ! 0) \<le> 0 \<and> sy_tax (scenario_years k 1 ! 0) = 0
      \<and> EBIT (df_table r ! 0) \<le> 0 \<and> Tax (df_table r ! 0) = 0"
proof -
  let ?k = "\<lparr>investment = 20000, margin_ratio = 0.40, salary_tax_rate = 0.25, corp_tax_rate = 0.21,
          salary_multiplier = 1.25, annual_amortization = 4000,
          total_salary_cost_monthly = 5000, rent_monthly = 3600,
          total_yearly_fixed_costs = 107200, yearly_breakeven_turnover = 268000\<rparr>"
  note be = breakeven_times_margin[OF us_retail_costs[unfolded compute_costs_def]]
  note fx = compute_costs_on_Inr(8)[OF us_retail_costs[unfolded compute_costs_def]]
  note tf = tax_floor[OF us_retail_costs us_retail_result, of 1]
  have ly: "length (scenario_years ?k 1) = 3"
    by (simp add: scenario_years_unfold Let_def)
  have lt: "length (df_table (result_of ?k)) = 3"
    by (rule result_of_lengths(3))
  have e1: "sy_ebit (scenario_years ?k 1 ! 0) \<le> 0"
    using arg_cong[OF stagnation_years(1)[OF be], of "\<lambda>xs. xs ! 0"] ly by simp
  have e2: "EBIT (df_table (result_of ?k) ! 0) \<le> 0"
    using arg_cong[OF table_rows_at_breakeven(1)[OF be fx], of "\<lambda>xs. xs ! 0"] lt
    by (simp add: result_of_def)
  have m1: "scenario_years ?k 1 ! 0 \<in> set (scenario_years ?k 1)"
    using ly by simp
  have m2: "df_table (result_of ?k) ! 0 \<in> set (df_table (result_of ?k))"
    using lt by simp
  from tf m1 e1 have x1: "sy_tax (scenario_years ?k 1 ! 0) = 0" by blast
  from tf m2 e2 have x2: "Tax (df_table (result_of ?k) ! 0) = 0" by blast
  from us_retail_costs us_retail_result e1 e2 x1 x2 show ?thesis by blast
qed

text \<open>C4, as the code has it: the engine validates neither the investment nor the employee
  count. For known keys and arguments that are floats or ints below \<open>2 ^ 500\<close> in magnitude
  (no conversion of an int to a double can then overflow), it raises
  \<^verbatim>\<open>ZeroDivisionError\<close> and returns nothing when the margin ratio is 0, and otherwise returns a
  complete result (three scenarios of three profit and three cash values, three table rows),
  whatever the sign of the investment and of the employee count.\<close>

theorem engine_validates_nothing:
  assumes s: "sectors industry = Some s" and z: "zones region = Some z"
    and iv: "case inv0 of None \<Rightarrow> True | Some v \<Rightarrow> in_range v"
    and os: "in_range owner_salary" and rt: "in_range rent"
    and ne: "in_range nb_emp" and es: "in_range emp_salary"
  shows "(is_zero (margin_py s) \<longrightarrow>
            perform_calculations_py_on sectors zones region industry inv0 owner_salary rent
              nb_emp emp_salary = Inl ZeroDivisionError)
       \<and> (\<not> is_zero (margin_py s) \<longrightarrow>
            (\<exists>r. perform_calculations_py_on sectors zones region industry inv0 owner_salary rent
                   nb_emp emp_salary = Inr r
                 \<and> length (graph_data_py r) = 3
                 \<and> (\<forall>g\<in>set (graph_data_py r). length (profit_py g) = 3 \<and> length (cash_py g) = 3)
                 \<and> length (df_table_py r) = 3))"
  using perform_calculations_py_on_zero_margin[where sectors = sectors and industry = industry and zones = zones and region = region, 
      OF s z _ iv os rt ne es]
    perform_calculations_py_on_returns[where sectors = sectors and industry = industry and zones = zones and region = region, 
      OF s z _ iv os rt ne es]
  by blast

text \<open>A run with investment -20000 and employee count -1 returns a result; a table whose
  retail margin is 0 makes the run raise.\<close>

theorem engine_validates_nothing_witness:
  "(\<exists>r. perform_calculations_py ''us'' ''retail'' (Some (PyInt (- 20000))) (PyInt 2000) (PyInt 3000)
          (PyInt (- 1)) (PyInt 2000) = Inr r
        \<and> length (graph_data_py r) = 3 \<and> length (df_table_py r) = 3)
   \<and> perform_calculations_py_on
        (SECTOR_RATIOS_py(''retail'' \<mapsto> \<lparr>margin_py = Finite 0 (- 1074),
           stock_need_py = float_literal 15 100, label_py = ''Retail (Store)''\<rparr>))
        TAX_ZONES_py ''us'' ''retail'' (Some (PyInt 20000)) (PyInt 2000) (PyInt 3000) (PyInt 1)
        (PyInt 2000) = Inl ZeroDivisionError"
proof -
  have a: "\<not> is_zero (margin_py \<lparr>margin_py = float_literal 40 100,
      stock_need_py = float_literal 15 100, label_py = ''Retail (Store)''\<rparr>)"
    by (simp add: float_literal_values is_zero_def)
  have i1: "case Some (PyInt (- 20000)) of None \<Rightarrow> True | Some v \<Rightarrow> in_range v"
    and i2: "case Some (PyInt 20000) of None \<Rightarrow> True | Some v \<Rightarrow> in_range v"
    by (simp_all add: in_range_examples)
  have b: "(SECTOR_RATIOS_py(''retail'' \<mapsto> \<lparr>margin_py = Finite 0 (- 1074),
           stock_need_py = float_literal 15 100, label_py = ''Retail (Store)''\<rparr>)) ''retail''
        = Some \<lparr>margin_py = Finite 0 (- 1074),
           stock_need_py = float_literal 15 100, label_py = ''Retail (Store)''\<rparr>"
    by simp
  have c: "is_zero (margin_py \<lparr>margin_py = Finite 0 (- 1074),
           stock_need_py = float_literal 15 100, label_py = ''Retail (Store)''\<rparr>)"
    by (simp add: is_zero_def)
  from engine_validates_nothing[where sectors = SECTOR_RATIOS_py and industry = "''retail''"
      and zones = TAX_ZONES_py and region = "''us''",
      OF SECTOR_RATIOS_py_retail TAX_ZONES_py_us i1 in_range_examples(1) in_range_examples(2)
        in_range_examples(4) in_range_examples(1)] a
  have 1: "\<exists>r. perform_calculations_py ''us'' ''retail'' (Some (PyInt (- 20000))) (PyInt 2000)
        (PyInt 3000) (PyInt (- 1)) (PyInt 2000) = Inr r
        \<and> length (graph_data_py r) = 3 \<and> length (df_table_py r) = 3"
    unfolding perform_calculations_py_def by blast
  from engine_validates_nothing[where industry = "''retail''" and zones = TAX_ZONES_py
      and region = "''us''"
      and sectors = "SECTOR_RATIOS_py(''retail'' \<mapsto> \<lparr>margin_py = Finite 0 (- 1074),
           stock_need_py = float_literal 15 100, label_py = ''Retail (Store)''\<rparr>)",
      OF b TAX_ZONES_py_us i2 in_range_examples(1) in_range_examples(2)
        in_range_examples(3) in_range_examples(1)] c
  have 2: "perform_calculations_py_on
        (SECTOR_RATIOS_py(''retail'' \<mapsto> \<lparr>margin_py = Finite 0 (- 1074),
           stock_need_py = float_literal 15 100, label_py = ''Retail (Store)''\<rparr>))
        TAX_ZONES_py ''us'' ''retail'' (Some (PyInt 20000)) (PyInt 2000) (PyInt 3000) (PyInt 1)
        (PyInt 2000) = Inl ZeroDivisionError"
    by blast
  from 1 2 show ?thesis ..
qed

text \<open>The claim as stated fails: investment -20000 and employee count -1 are not
  rejected, the engine returns break-even turnovers 248000 and 118000.\<close>

theorem negative_inputs_not_rejected:
  "\<not> isl (perform_calculations ''us'' ''retail'' (Some (- 20000)) 2000 3000 1 2000)
   \<and> map_sum id res_breakeven_turnover
        (perform_calculations ''us'' ''retail'' (Some (- 20000)) 2000 3000 1 2000) = Inr 248000
   \<and> \<not> isl (perform_calculations ''us'' ''retail'' (Some 20000) 2000 3000 (- 1) 2000)
   \<and> map_sum id res_breakeven_turnover
        (perform_calculations ''us'' ''retail'' (Some 20000) 2000 3000 (- 1) 2000) = Inr 118000"
  by (simp add: perform_calculations_of_costs[OF negative_investment_costs]
      perform_calculations_of_costs[OF negative_employees_costs] result_of_def)

text \<open>C5: the column \<^verbatim>\<open>Net Assets\<close> starts from the investment \<open>iv\<close> (0 when the argument is
  \<^verbatim>\<open>None\<close>), loses the annual amortization \<open>iv / 5\<close> each year and is floored at 0 after
  each subtraction, so that it is never negative in any of the three rows, for any
  investment; for \<open>iv \<ge> 0\<close> the floor is not reached and the three values are \<open>iv - iv / 5\<close>,
  \<open>iv - 2 * (iv / 5)\<close> and \<open>iv - 3 * (iv / 5)\<close>.\<close>

theorem net_assets_floored:
  assumes r: "perform_calculations region industry inv0 owner_salary rent nb_emp emp_salary = Inr r"
    and iv: "iv = (case inv0 of None \<Rightarrow> 0 | Some v \<Rightarrow> v)"
  shows "map Net_Assets (df_table r) =
           [max 0 (iv - iv / 5),
            max 0 (max 0 (iv - iv / 5) - iv / 5),
            max 0 (max 0 (max 0 (iv - iv / 5) - iv / 5) - iv / 5)]
       \<and> (\<forall>row\<in>set (df_table r). 0 \<le> Net_Assets row)
       \<and> (0 \<le> iv \<longrightarrow> map Net_Assets (df_table r) =
             [iv - iv / 5, iv - iv / 5 - iv / 5, iv - iv / 5 - iv / 5 - iv / 5])"
proof -
  from perform_calculations_Inr[OF r] obtain k
    where k: "compute_costs region industry inv0 owner_salary rent nb_emp emp_salary = Inr k"
      and rk: "r = result_of k" by blast
  have i: "investment k = iv"
    using compute_costs_on_Inr(3)[OF k[unfolded compute_costs_def]] iv by simp
  have a: "annual_amortization k = iv / 5"
    using compute_costs_on_Inr(5)[OF k[unfolded compute_costs_def]] i by simp
  have t: "df_table r = table_rows k"
    by (simp add: rk result_of_def)
  define b where "b = yearly_breakeven_turnover k"
  define r1 where "r1 = table_body k b 0 (- investment k) (investment k)"
  define r2 where "r2 = table_body k b 1 (Cash_Position r1) (Net_Assets r1)"
  define r3 where "r3 = table_body k b 2 (Cash_Position r2) (Net_Assets r2)"
  have rs: "table_rows k = [r1, r2, r3]"
    by (simp add: table_rows_unfold Let_def r1_def r2_def r3_def b_def)
  have n1: "Net_Assets r1 = max 0 (iv - iv / 5)"
    by (simp add: r1_def table_body_simps(13) i a max_def)
  have n2: "Net_Assets r2 = max 0 (max 0 (iv - iv / 5) - iv / 5)"
    unfolding r2_def table_body_simps(13) n1 a by (simp add: max_def)
  have n3: "Net_Assets r3 = max 0 (max 0 (max 0 (iv - iv / 5) - iv / 5) - iv / 5)"
    unfolding r3_def table_body_simps(13) n2 a by (simp add: max_def)
  have m: "map Net_Assets (df_table r) =
           [max 0 (iv - iv / 5),
            max 0 (max 0 (iv - iv / 5) - iv / 5),
            max 0 (max 0 (max 0 (iv - iv / 5) - iv / 5) - iv / 5)]"
    by (simp add: t rs n1 n2 n3)
  have p: "\<forall>row\<in>set (df_table r). 0 \<le> Net_Assets row"
    unfolding t table_rows_def
    by (rule table_loop_all) (simp add: table_body_simps(13))
  have c: "0 \<le> iv \<longrightarrow> map Net_Assets (df_table r) =
             [iv - iv / 5, iv - iv / 5 - iv / 5, iv - iv / 5 - iv / 5 - iv / 5]"
    unfolding m by (simp add: max_def)
  from m p c show ?thesis by blast
qed

text \<open>With investment 20000 the three values are 16000, 12000 and 8000; with investment
  -20000 the first year would be -16000 and is floored, and the values are 0, 4000 and
  8000.\<close>

theorem net_assets_floored_witness:
  "(\<exists>r. perform_calculations ''us'' ''retail'' (Some 20000) 2000 3000 1 2000 = Inr r
      \<and> map Net_Assets (df_table r) = [16000, 12000, 8000])
   \<and> (\<exists>r. perform_calculations ''us'' ''retail'' (Some (- 20000)) 2000 3000 1 2000 = Inr r
      \<and> map Net_Assets (df_table r) = [0, 4000, 8000])"
proof -
  have v1: "(20000::real) = (case Some 20000 of None \<Rightarrow> 0 | Some v \<Rightarrow> v)" by simp
  have v2: "(- 20000::real) = (case Some (- 20000) of None \<Rightarrow> 0 | Some v \<Rightarrow> v)" by simp
  from net_assets_floored[OF us_retail_result v1] us_retail_result
  have 1: "\<exists>r. perform_calculations ''us'' ''retail'' (Some 20000) 2000 3000 1 2000 = Inr r
      \<and> map Net_Assets (df_table r) = [16000, 12000, 8000]"
    by simp
  from net_assets_floored[OF negative_investment_result v2] negative_investment_result
  have 2: "\<exists>r. perform_calculations ''us'' ''retail'' (Some (- 20000)) 2000 3000 1 2000 = Inr r
      \<and> map Net_Assets (df_table r) = [0, 4000, 8000]"
    by simp
  from 1 2 show ?thesis ..
qed

text \<open>C6: two runs over the same tables that differ only in the investment, with a positive
  margin ratio: the larger investment gives a break-even turnover at least as large.\<close>

theorem breakeven_monotone_in_investment:
  assumes s: "sectors industry = Some s" and m: "0 < margin s" and le: "inv1 \<le> inv2"
    and r1: "perform_calculations_on sectors zones region industry (Some inv1)
               owner_salary rent nb_emp emp_salary = Inr r1"
    and r2: "perform_calculations_on sectors zones region industry (Some inv2)
               owner_salary rent nb_emp emp_salary = Inr r2"
  shows "res_breakeven_turnover r1 \<le> res_breakeven_turnover r2"
proof -
  from perform_calculations_on_Inr[OF r1] obtain k1
    where k1: "compute_costs_on sectors zones region industry (Some inv1)
                 owner_salary rent nb_emp emp_salary = Inr k1"
      and e1: "r1 = result_of k1" by blast
  from perform_calculations_on_Inr[OF r2] obtain k2
    where k2: "compute_costs_on sectors zones region industry (Some inv2)
                 owner_salary rent nb_emp emp_salary = Inr k2"
      and e2: "r2 = result_of k2" by blast
  note c1 = compute_costs_on_Inr[OF k1] and c2 = compute_costs_on_Inr[OF k2]
  have m1: "margin_ratio k1 = margin s" and m2: "margin_ratio k2 = margin s"
    using c1(1) c2(1) s by auto
  have st: "salary_tax_rate k1 = salary_tax_rate k2"
    using c1(1) c2(1) by auto
  have sal: "total_salary_cost_monthly k1 = total_salary_cost_monthly k2"
    by (simp add: c1(6) c2(6) c1(4) c2(4) st)
  have rm: "rent_monthly k1 = rent_monthly k2"
    by (simp add: c1(7) c2(7))
  have am: "annual_amortization k1 \<le> annual_amortization k2"
    using le by (simp add: c1(5) c2(5) c1(3) c2(3))
  have fx: "total_yearly_fixed_costs k1 \<le> total_yearly_fixed_costs k2"
    using am by (simp add: c1(8) c2(8) sal rm)
  have "yearly_breakeven_turnover k1 \<le> yearly_breakeven_turnover k2"
    unfolding c1(9) c2(9) m1 m2 using fx m by (simp add: divide_right_mono)
  then show ?thesis
    by (simp add: e1 e2 result_of_def)
qed

text \<open>Investments 10000 and 20000 at the default inputs of the form.\<close>

theorem breakeven_monotone_in_investment_witness:
  "\<exists>s r1 r2. SECTOR_RATIOS ''retail'' = Some s \<and> 0 < margin s \<and> (10000::real) \<le> 20000
      \<and> perform_calculations_on SECTOR_RATIOS TAX_ZONES ''us'' ''retail'' (Some 10000) 2000 3000 1 2000 = Inr r1
      \<and> perform_calculations_on SECTOR_RATIOS TAX_ZONES ''us'' ''retail'' (Some 20000) 2000 3000 1 2000 = Inr r2
      \<and> res_breakeven_turnover r1 \<le> res_breakeven_turnover r2"
proof -
  have m: "0 < margin \<lparr>margin = 0.40, stock_need = 0.15, label = ''Retail (Store)''\<rparr>"
    by simp
  have le: "(10000::real) \<le> 20000" by simp
  have "compute_costs ''us'' ''retail'' (Some 10000) 2000 3000 1 2000 =
     Inr \<lparr>investment = 10000, margin_ratio = 0.40, salary_tax_rate = 0.25, corp_tax_rate = 0.21,
          salary_multiplier = 1.25, annual_amortization = 2000,
          total_salary_cost_monthly = 5000, rent_monthly = 3600,
          total_yearly_fixed_costs = 105200, yearly_breakeven_turnover = 263000\<rparr>"
    by (simp add: compute_costs_def compute_costs_on_def SECTOR_RATIOS_def TAX_ZONES_def
      py_truediv_def Let_def)
  note r1 = perform_calculations_of_costs[OF this, unfolded perform_calculations_def]
  note r2 = us_retail_result[unfolded perform_calculations_def]
  from breakeven_monotone_in_investment[where sectors = SECTOR_RATIOS and industry = "''retail''",
      OF SECTOR_RATIOS_retail m le r1 r2]
    SECTOR_RATIOS_retail m le r1 r2
  show ?thesis by blast
qed

text \<open>C7: the column \<^verbatim>\<open>Turnover\<close> of the table is the break-even turnover in each of the
  three rows: the table loop applies no growth rate, whereas a scenario with rate \<open>rate\<close> has
  the turnovers \<open>b\<close>, \<open>b * rate\<close> and \<open>b * rate * rate\<close>.\<close>

theorem table_turnover_flat:
  assumes k: "compute_costs region industry inv0 owner_salary rent nb_emp emp_salary = Inr k"
    and r: "perform_calculations region industry inv0 owner_salary rent nb_emp emp_salary = Inr r"
  shows "map Turnover (df_table r) =
           [res_breakeven_turnover r, res_breakeven_turnover r, res_breakeven_turnover r]
       \<and> map sy_turnover (scenario_years k rate) =
           [res_breakeven_turnover r, res_breakeven_turnover r * rate,
            res_breakeven_turnover r * rate * rate]"
proof -
  have rk: "r = result_of k"
    using r perform_calculations_of_costs[OF k] by simp
  have a: "map Turnover (df_table r) =
           [res_breakeven_turnover r, res_breakeven_turnover r, res_breakeven_turnover r]"
    by (simp add: rk result_of_def table_rows_unfold Let_def table_body_simps(2))
  have b: "res_breakeven_turnover r = yearly_breakeven_turnover k"
    by (simp add: rk result_of_def)
  from a scenario_years_turnover[of k rate] show ?thesis
    unfolding b by blast
qed

text \<open>At the default inputs every row has turnover 268000, and the Growth scenario has
  268000, 281400 and 295470.\<close>

theorem table_turnover_flat_witness:
  "\<exists>k r. compute_costs ''us'' ''retail'' (Some 20000) 2000 3000 1 2000 = Inr k
      \<and> perform_calculations ''us'' ''retail'' (Some 20000) 2000 3000 1 2000 = Inr r
      \<and> map Turnover (df_table r) = [268000, 268000, 268000]
      \<and> map sy_turnover (scenario_years k 1.05) = [268000, 281400, 295470]"
proof -
  let ?k = "\<lparr>investment = 20000, margin_ratio = 0.40, salary_tax_rate = 0.25, corp_tax_rate = 0.21,
          salary_multiplier = 1.25, annual_amortization = 4000,
          total_salary_cost_monthly = 5000, rent_monthly = 3600,
          total_yearly_fixed_costs = 107200, yearly_breakeven_turnover = 268000\<rparr>"
  have b: "res_breakeven_turnover (result_of ?k) = 268000"
    by (simp add: result_of_def)
  note t = table_turnover_flat[OF us_retail_costs us_retail_result, of "1.05", unfolded b]
  have t1: "map Turnover (df_table (result_of ?k)) = [268000, 268000, 268000]"
    using t by blast
  have t2: "map sy_turnover (scenario_years ?k 1.05) = [268000, 281400, 295470]"
    using conjunct2[OF t] by simp
  show ?thesis
    by (intro exI[of _ ?k] exI[of _ "result_of ?k"] conjI)
      (rule us_retail_costs us_retail_result t1 t2)+
qed




text \<open>C9: a \<^verbatim>\<open>None\<close> investment gives exactly the outcome of the int 0, the same tuple
  (break-even turnover, tax rate, scenarios and table) or the same exception; and it raises
  nothing: for known keys and other arguments that are floats or ints below \<open>2 ^ 500\<close> in
  magnitude, the run with \<^verbatim>\<open>None\<close> returns a result.\<close>

theorem none_investment_like_zero:
  "perform_calculations_py region industry None owner_salary rent nb_emp emp_salary =
     perform_calculations_py region industry (Some (PyInt 0)) owner_salary rent nb_emp emp_salary
   \<and> (SECTOR_RATIOS_py industry \<noteq> None \<and> TAX_ZONES_py region \<noteq> None
        \<and> in_range owner_salary \<and> in_range rent \<and> in_range nb_emp \<and> in_range emp_salary
      \<longrightarrow> (\<exists>r. perform_calculations_py region industry None owner_salary rent nb_emp emp_salary
                 = Inr r))"
proof (intro conjI impI)
  show "perform_calculations_py region industry None owner_salary rent nb_emp emp_salary =
      perform_calculations_py region industry (Some (PyInt 0)) owner_salary rent nb_emp emp_salary"
    by (simp add: perform_calculations_py_def perform_calculations_py_on_def
        compute_costs_py_on_def)
next
  assume h: "SECTOR_RATIOS_py industry \<noteq> None \<and> TAX_ZONES_py region \<noteq> None
        \<and> in_range owner_salary \<and> in_range rent \<and> in_range nb_emp \<and> in_range emp_salary"
  then obtain s z where s: "SECTOR_RATIOS_py industry = Some s"
    and z: "TAX_ZONES_py region = Some z" by auto
  from h have os: "in_range owner_salary" and rt: "in_range rent"
    and ne: "in_range nb_emp" and es: "in_range emp_salary" by simp_all
  have i: "case None of None \<Rightarrow> True | Some v \<Rightarrow> in_range v" by simp
  from perform_calculations_py_on_returns[where sectors = SECTOR_RATIOS_py
      and industry = industry and zones = TAX_ZONES_py and region = region,
      OF s z SECTOR_RATIOS_py_margin_nonzero[OF s] i os rt ne es]
  show "\<exists>r. perform_calculations_py region industry None owner_salary rent nb_emp emp_salary
      = Inr r" unfolding perform_calculations_py_def by blast
qed

text \<open>At the default inputs of the form, with the investment left empty.\<close>

theorem none_investment_like_zero_witness:
  "SECTOR_RATIOS_py ''retail'' \<noteq> None \<and> TAX_ZONES_py ''us'' \<noteq> None
   \<and> in_range (PyInt 2000) \<and> in_range (PyInt 3000) \<and> in_range (PyInt 1)
   \<and> (\<exists>r. perform_calculations_py ''us'' ''retail'' None (PyInt 2000) (PyInt 3000) (PyInt 1)
          (PyInt 2000) = Inr r
        \<and> perform_calculations_py ''us'' ''retail'' (Some (PyInt 0)) (PyInt 2000) (PyInt 3000)
            (PyInt 1) (PyInt 2000) = Inr r)"
proof -
  have h: "SECTOR_RATIOS_py ''retail'' \<noteq> None \<and> TAX_ZONES_py ''us'' \<noteq> None
        \<and> in_range (PyInt 2000) \<and> in_range (PyInt 3000) \<and> in_range (PyInt 1)
        \<and> in_range (PyInt 2000)"
    by (simp add: SECTOR_RATIOS_py_retail TAX_ZONES_py_us in_range_examples)
  note t = none_investment_like_zero[of "''us''" "''retail''" "PyInt 2000" "PyInt 3000" "PyInt 1"
      "PyInt 2000"]
  from t h obtain r where r: "perform_calculations_py ''us'' ''retail'' None (PyInt 2000)
      (PyInt 3000) (PyInt 1) (PyInt 2000) = Inr r" by blast
  from t r have "perform_calculations_py ''us'' ''retail'' (Some (PyInt 0)) (PyInt 2000)
      (PyInt 3000) (PyInt 1) (PyInt 2000) = Inr r" by simp
  with r h show ?thesis by blast
qed

text \<open>C10, in exact arithmetic: for every input on which the engine returns, the Stagnation
  scenario agrees with the table in all three years: its list of net profits is the column
  \<^verbatim>\<open>Net Profit\<close> and its list of cumulative cash is the column \<^verbatim>\<open>Cash Position\<close>.\<close>

theorem stagnation_agrees_with_table:
  assumes "perform_calculations region industry inv0 owner_salary rent nb_emp emp_salary = Inr r"
  shows "name (graph_data r ! 0) = ''Stagnation''
       \<and> length (df_table r) = 3
       \<and> profit (graph_data r ! 0) = map Net_Profit (df_table r)
       \<and> cash (graph_data r ! 0) = map Cash_Position (df_table r)"
proof -
  from perform_calculations_Inr[OF assms] obtain k
    where k: "compute_costs region industry inv0 owner_salary rent nb_emp emp_salary = Inr k"
      and r: "r = result_of k" by blast
  note be = breakeven_times_margin[OF k[unfolded compute_costs_def]]
  note fx = compute_costs_on_Inr(8)[OF k[unfolded compute_costs_def]]
  have g: "graph_data r ! 0 =
      \<lparr>name = ''Stagnation'', profit = map sy_net_profit (scenario_years k 1),
       cash = map sy_cumulative_cash (scenario_years k 1)\<rparr>"
    by (simp add: r result_of_def scenarios_def graph_entry_of_def Let_def)
  have t: "df_table r = table_rows k"
    by (simp add: r result_of_def)
  have p: "profit (graph_data r ! 0) = map Net_Profit (df_table r)"
    unfolding g t by (simp add: stagnation_years(2)[OF be] table_rows_at_breakeven(3)[OF be fx])
  have c: "cash (graph_data r ! 0) = map Cash_Position (df_table r)"
    unfolding g t by (simp add: stagnation_years(3)[OF be] table_rows_at_breakeven(4)[OF be fx])
  have l: "length (df_table r) = 3"
    unfolding t by (simp add: table_rows_unfold Let_def)
  have nm: "name (graph_data r ! 0) = ''Stagnation''"
    unfolding g by simp
  show ?thesis
    using p c l nm by simp
qed

text \<open>The hypothesis holds at the default inputs of the form.\<close>

theorem stagnation_agrees_with_table_witness:
  "\<exists>r. perform_calculations ''us'' ''retail'' (Some 20000) 2000 3000 1 2000 = Inr r
      \<and> name (graph_data r ! 0) = ''Stagnation''
      \<and> length (df_table r) = 3
      \<and> profit (graph_data r ! 0) = map Net_Profit (df_table r)
      \<and> cash (graph_data r ! 0) = map Cash_Position (df_table r)"
  using stagnation_agrees_with_table[OF us_retail_result] us_retail_result by blast

text \<open>In doubles the lists differ. For region \<^verbatim>\<open>afr\<close>, industry \<^verbatim>\<open>retail\<close>, investment
  20000, owner salary 2000, rent 3000 and three employees at 4000, the scenario has net
  profits 0.0 where the table has about 2.04e-11 in each year, and the cumulative cash differs
  in every year.\<close>

theorem stagnation_differs_from_table_in_doubles:
  "map_sum id (profit_py \<circ> hd \<circ> graph_data_py)
     (perform_calculations_py ''afr'' ''retail'' (Some (PyInt 20000)) (PyInt 2000) (PyInt 3000)
        (PyInt 3) (PyInt 4000)) =
     Inr [PyFloat (Finite 0 (- 1074)), PyFloat (Finite 0 (- 1074)), PyFloat (Finite 0 (- 1074))]
   \<and> map_sum id (map Net_Profit_py \<circ> df_table_py)
     (perform_calculations_py ''afr'' ''retail'' (Some (PyInt 20000)) (PyInt 2000) (PyInt 3000)
        (PyInt 3) (PyInt 4000)) =
     Inr [PyFloat (Finite 6305039478318694 (- 88)), PyFloat (Finite 6305039478318694 (- 88)),
          PyFloat (Finite 6305039478318694 (- 88))]
   \<and> \<not> py_eq (PyFloat (Finite 0 (- 1074))) (PyFloat (Finite 6305039478318694 (- 88)))
   \<and> map_sum id (cash_py \<circ> hd \<circ> graph_data_py)
     (perform_calculations_py ''afr'' ''retail'' (Some (PyInt 20000)) (PyInt 2000) (PyInt 3000)
        (PyInt 3) (PyInt 4000)) =
     Inr [PyFloat (Finite (- 8796093022208000) (- 39)), PyFloat (Finite (- 6597069766656000) (- 39)),
          PyFloat (Finite (- 8796093022208000) (- 40))]
   \<and> map_sum id (map Cash_Position_py \<circ> df_table_py)
     (perform_calculations_py ''afr'' ''retail'' (Some (PyInt 20000)) (PyInt 2000) (PyInt 3000)
        (PyInt 3) (PyInt 4000)) =
     Inr [PyFloat (Finite (- 8796093022207989) (- 39)), PyFloat (Finite (- 6597069766655978) (- 39)),
          PyFloat (Finite (- 8796093022207934) (- 40))]
   \<and> \<not> py_eq (PyFloat (Finite (- 8796093022208000) (- 39)))
            (PyFloat (Finite (- 8796093022207989) (- 39)))
   \<and> \<not> py_eq (PyFloat (Finite (- 6597069766656000) (- 39)))
            (PyFloat (Finite (- 6597069766655978) (- 39)))
   \<and> \<not> py_eq (PyFloat (Finite (- 8796093022208000) (- 40)))
            (PyFloat (Finite (- 8796093022207934) (- 40)))"
  by (simp add: py_run_afr py_eq_def)

end
